theory Spec2Isabelle
  imports Main "HOL-Library.Sublist"
begin

section \<open>Library functions of the Go runtime used by the sources\<close>

subsection \<open>strconv.Itoa and strconv.FormatBool\<close>

definition digit_char :: "nat \<Rightarrow> char" where
  "digit_char d = ''0123456789'' ! d"

fun itoa_nat :: "nat \<Rightarrow> string" where
  "itoa_nat n = (if n < 10 then [digit_char n] else itoa_nat (n div 10) @ [digit_char (n mod 10)])"

declare itoa_nat.simps [simp del]

text \<open>\<^verbatim>\<open>strconv.Itoa\<close>: the decimal rendering of an integer, with a leading minus sign
  for a negative one.\<close>

definition Itoa :: "int \<Rightarrow> string" where
  "Itoa i = (if i < 0 then CHR ''-'' # itoa_nat (nat (- i)) else itoa_nat (nat i))"

definition FormatBool :: "bool \<Rightarrow> string" where
  "FormatBool b = (if b then ''true'' else ''false'')"

subsection \<open>A fragment of the regexp package\<close>

text \<open>The sources compile patterns with \<^verbatim>\<open>regexp.Compile\<close> and \<^verbatim>\<open>regexp.MustCompile\<close>
  and apply them with \<^verbatim>\<open>MatchString\<close>, which searches for a match anywhere in the text.
  The attribute matcher below takes the regexp package as a parameter (a compile function
  and a match function). For the concrete patterns that occur in the sources and in the
  scenarios, the fragment defined here is enough: literal characters, an escaped
  character, \<^verbatim>\<open>.\<close> (any character except a newline), a star after a single
  character or dot, and the anchors \<^verbatim>\<open>^\<close> and \<^verbatim>\<open>$\<close> (beginning and end of text).
  Every other metacharacter is outside the fragment and \<open>rx_parse\<close> answers \<open>None\<close>
  for it. A text is a list of bytes. The package reads a text rune by rune; the literal
  characters of the patterns used here are ASCII, and a byte before or after an ASCII
  character ends or starts a rune, so that reading byte by byte gives the same matches.\<close>

datatype rx_class = Lit char | Dot

datatype rx_item = Bol | Eol | One rx_class | Many rx_class

fun rx_class_matches :: "rx_class \<Rightarrow> char \<Rightarrow> bool" where
  "rx_class_matches (Lit c) x = (x = c)"
| "rx_class_matches Dot x = (x \<noteq> CHR 0x0A)"

definition rx_meta :: "char \<Rightarrow> bool" where
  "rx_meta c = (c = CHR 0x5C \<or> c \<in> set ''.+*?()|[]{}^$'')"

datatype rx_token = TBol | TEol | TStar | TClass rx_class

text \<open>The characters of a pattern: a backslash escapes the metacharacter after it.\<close>

fun rx_tokens :: "string \<Rightarrow> rx_token list option" where
  "rx_tokens [] = Some []"
| "rx_tokens (c # cs) =
     (if c = CHR 0x5C then
        (case cs of
           [] \<Rightarrow> None
         | e # es \<Rightarrow> if rx_meta e then map_option ((#) (TClass (Lit e))) (rx_tokens es) else None)
      else if c = CHR ''^'' then map_option ((#) TBol) (rx_tokens cs)
      else if c = CHR ''$'' then map_option ((#) TEol) (rx_tokens cs)
      else if c = CHR ''.'' then map_option ((#) (TClass Dot)) (rx_tokens cs)
      else if c = CHR ''*'' then map_option ((#) TStar) (rx_tokens cs)
      else if rx_meta c then None
      else map_option ((#) (TClass (Lit c))) (rx_tokens cs))"

text \<open>A star binds to the single character or dot before it.\<close>

fun rx_items :: "rx_token list \<Rightarrow> rx_item list option" where
  "rx_items [] = Some []"
| "rx_items (TClass cl # TStar # ts) = map_option ((#) (Many cl)) (rx_items ts)"
| "rx_items (TClass cl # ts) = map_option ((#) (One cl)) (rx_items ts)"
| "rx_items (TBol # ts) = map_option ((#) Bol) (rx_items ts)"
| "rx_items (TEol # ts) = map_option ((#) Eol) (rx_items ts)"
| "rx_items (TStar # ts) = None"

definition rx_parse :: "string \<Rightarrow> rx_item list option" where
  "rx_parse pat = (case rx_tokens pat of None \<Rightarrow> None | Some ts \<Rightarrow> rx_items ts)"

text \<open>\<open>rx_here p b s\<close>: the pattern matches a prefix of \<open>s\<close>; \<open>b\<close> tells whether \<open>s\<close>
  starts at the beginning of the text.\<close>

fun rx_here :: "rx_item list \<Rightarrow> bool \<Rightarrow> string \<Rightarrow> bool" where
  "rx_here [] b s = True"
| "rx_here (Bol # p) b s = (b \<and> rx_here p b s)"
| "rx_here (Eol # p) b s = (s = [] \<and> rx_here p b s)"
| "rx_here (One cl # p) b [] = False"
| "rx_here (One cl # p) b (x # xs) = (rx_class_matches cl x \<and> rx_here p False xs)"
| "rx_here (Many cl # p) b [] = rx_here p b []"
| "rx_here (Many cl # p) b (x # xs) =
     (rx_here p b (x # xs) \<or> (rx_class_matches cl x \<and> rx_here (Many cl # p) False xs))"

fun rx_search :: "rx_item list \<Rightarrow> bool \<Rightarrow> string \<Rightarrow> bool" where
  "rx_search p b [] = rx_here p b []"
| "rx_search p b (x # xs) = (rx_here p b (x # xs) \<or> rx_search p False xs)"

definition rx_Compile :: "string \<Rightarrow> string + rx_item list" where
  "rx_Compile pat = (case rx_parse pat of None \<Rightarrow> Inl ''error parsing regexp'' | Some p \<Rightarrow> Inr p)"

definition rx_MatchString :: "rx_item list \<Rightarrow> string \<Rightarrow> bool" where
  "rx_MatchString p s = rx_search p True s"

text \<open>\<^verbatim>\<open>regexp.MustCompile\<close> panics on a pattern that does not compile; \<open>None\<close> is the
  panic.\<close>

definition rx_MustCompile :: "string \<Rightarrow> rx_item list option" where
  "rx_MustCompile pat = (case rx_Compile pat of Inl err \<Rightarrow> None | Inr p \<Rightarrow> Some p)"

section \<open>Attribute constraints (package asserts)\<close>

subsection \<open>Data\<close>

text \<open>A constraint as it arrives from the assertion headers, an \<^verbatim>\<open>interface{}\<close>:
  a \<^verbatim>\<open>map[string]interface{}\<close>, a \<^verbatim>\<open>[]interface{}\<close>, a string, or anything else.
  A Go map is iterated in no fixed order; the map is an association list here and the
  loops run in list order, so a statement about every order quantifies over the list.\<close>

datatype constraint =
    CMap "(string \<times> constraint) list"
  | CList "constraint list"
  | CString string
  | COther

text \<open>An attribute value, an \<^verbatim>\<open>interface{}\<close>: nil, a string, a bool, an int, a list,
  a \<^verbatim>\<open>map[string]interface{}\<close> (top level), a \<^verbatim>\<open>map[interface{}]interface{}\<close>
  (nested), or a value of any other dynamic type.\<close>

datatype attr_value =
    VNil
  | VString string
  | VBool bool
  | VInt int
  | VList "attr_value list"
  | VMapS "(string \<times> attr_value) list"
  | VMapI "(attr_value \<times> attr_value) list"
  | VOther

datatype 'rx attrMatcher =
    MapAttrMatcher "(string \<times> 'rx attrMatcher) list"
  | RegexpAttrMatcher 'rx
  | AltAttrMatcher "'rx attrMatcher list"

text \<open>The errors of compiling, one constructor for each \<^verbatim>\<open>fmt.Errorf\<close> of the source,
  carrying the arguments of the format.\<close>

datatype compile_error =
    ErrNestedAlt string
  | ErrFirstLevel
  | ErrConstraintKind string
  | ErrRegexpCompile string string string

text \<open>The errors of matching. The first argument is the dotted path (the context) named
  by the diagnostic. \<open>ErrNoAlternative\<close> wraps the first error of the alternatives, which
  is nil when there is no alternative at all.\<close>

datatype 'rx attr_error =
    ErrUnset string
  | ErrMustBeMap string
  | ErrMustBeScalarOrList string
  | ErrNoMatch string string 'rx
  | ErrNoAlternative string "'rx attr_error option"

record compileContext =
  dotted :: string
  hadMap :: bool
  wasAlt :: bool

subsection \<open>Compiling\<close>

definition chain :: "string \<Rightarrow> string \<Rightarrow> string" where
  "chain context k = (if context = [] then k else context @ ''.'' @ k)"

definition keyEntry :: "compileContext \<Rightarrow> string \<Rightarrow> compileContext" where
  "keyEntry cc k = \<lparr>dotted = chain (dotted cc) k, hadMap = True, wasAlt = False\<rparr>"

definition alt :: "compileContext \<Rightarrow> nat \<Rightarrow> compileContext" where
  "alt cc i = \<lparr>dotted = dotted cc @ ''/alt#'' @ Itoa (int i + 1) @ ''/'', hadMap = hadMap cc, wasAlt = True\<rparr>"

definition compileRegexpAttrMatcher ::
  "(string \<Rightarrow> string + 'rx) \<Rightarrow> compileContext \<Rightarrow> string \<Rightarrow> compile_error + 'rx attrMatcher" where
  "compileRegexpAttrMatcher Compile cc s =
     (case Compile (''^'' @ s @ ''$'') of
        Inl err \<Rightarrow> Inl (ErrRegexpCompile (dotted cc) s err)
      | Inr rx \<Rightarrow> Inr (RegexpAttrMatcher rx))"

function compileAttrMatcher ::
    "(string \<Rightarrow> string + 'rx) \<Rightarrow> compileContext \<Rightarrow> constraint \<Rightarrow> compile_error + 'rx attrMatcher"
  and compileMapAttrMatcher ::
    "(string \<Rightarrow> string + 'rx) \<Rightarrow> compileContext \<Rightarrow> (string \<times> constraint) list
       \<Rightarrow> compile_error + (string \<times> 'rx attrMatcher) list"
  and compileAltAttrMatcher ::
    "(string \<Rightarrow> string + 'rx) \<Rightarrow> compileContext \<Rightarrow> nat \<Rightarrow> constraint list
       \<Rightarrow> compile_error + 'rx attrMatcher list"
where
  "compileAttrMatcher Compile cc (CMap m) =
     (case compileMapAttrMatcher Compile cc m of
        Inl err \<Rightarrow> Inl err
      | Inr matcher \<Rightarrow> Inr (MapAttrMatcher matcher))"
| "compileAttrMatcher Compile cc (CList l) =
     (if wasAlt cc then Inl (ErrNestedAlt (dotted cc))
      else case compileAltAttrMatcher Compile cc 0 l of
             Inl err \<Rightarrow> Inl err
           | Inr alts \<Rightarrow> Inr (AltAttrMatcher alts))"
| "compileAttrMatcher Compile cc (CString s) =
     (if \<not> hadMap cc then Inl ErrFirstLevel
      else compileRegexpAttrMatcher Compile cc s)"
| "compileAttrMatcher Compile cc COther = Inl (ErrConstraintKind (dotted cc))"
| "compileMapAttrMatcher Compile cc [] = Inr []"
| "compileMapAttrMatcher Compile cc ((k, c) # m) =
     (case compileAttrMatcher Compile (keyEntry cc k) c of
        Inl err \<Rightarrow> Inl err
      | Inr matcher1 \<Rightarrow>
          (case compileMapAttrMatcher Compile cc m of
             Inl err \<Rightarrow> Inl err
           | Inr matcher \<Rightarrow> Inr ((k, matcher1) # matcher)))"
| "compileAltAttrMatcher Compile cc i [] = Inr []"
| "compileAltAttrMatcher Compile cc i (c # l) =
     (case compileAttrMatcher Compile (alt cc i) c of
        Inl err \<Rightarrow> Inl err
      | Inr matcher1 \<Rightarrow>
          (case compileAltAttrMatcher Compile cc (Suc i) l of
             Inl err \<Rightarrow> Inl err
           | Inr alts \<Rightarrow> Inr (matcher1 # alts)))"
  by pat_completeness auto

termination compileAttrMatcher
  by (relation "measure (\<lambda>x. case x of
        Inl (_, _, c) \<Rightarrow> size c
      | Inr (Inl (_, _, m)) \<Rightarrow> size_list (size_prod (\<lambda>_. 0) size) m
      | Inr (Inr (_, _, _, l)) \<Rightarrow> size_list size l)") auto

subsection \<open>Matching\<close>

text \<open>Indexing a map with an absent key gives nil.\<close>

definition lookupS :: "(string \<times> attr_value) list \<Rightarrow> string \<Rightarrow> attr_value" where
  "lookupS x k = (case map_of x k of None \<Rightarrow> VNil | Some v \<Rightarrow> v)"

definition lookupI :: "(attr_value \<times> attr_value) list \<Rightarrow> string \<Rightarrow> attr_value" where
  "lookupI x k = (case map_of x (VString k) of None \<Rightarrow> VNil | Some v \<Rightarrow> v)"

text \<open>\<open>match\<close> is the method \<^verbatim>\<open>match\<close> of the three matchers; \<open>None\<close> is the nil error.
  \<open>matchEntries\<close> is the loop over the entries of a map matcher with \<^verbatim>\<open>matchEntry\<close> as
  its body, \<open>matchList\<close> the loop of \<^verbatim>\<open>matchList\<close> from index \<open>i\<close>, and \<open>matchAlts\<close> the
  loop over the alternatives, with the first error seen so far.\<close>

function match ::
    "('rx \<Rightarrow> string \<Rightarrow> bool) \<Rightarrow> 'rx attrMatcher \<Rightarrow> string \<Rightarrow> attr_value \<Rightarrow> 'rx attr_error option"
  and matchEntries ::
    "('rx \<Rightarrow> string \<Rightarrow> bool) \<Rightarrow> (string \<times> 'rx attrMatcher) list \<Rightarrow> string
       \<Rightarrow> (string \<Rightarrow> attr_value) \<Rightarrow> 'rx attr_error option"
  and matchList ::
    "('rx \<Rightarrow> string \<Rightarrow> bool) \<Rightarrow> string \<Rightarrow> 'rx attrMatcher \<Rightarrow> nat \<Rightarrow> attr_value list
       \<Rightarrow> 'rx attr_error option"
  and matchAlts ::
    "('rx \<Rightarrow> string \<Rightarrow> bool) \<Rightarrow> 'rx attrMatcher list \<Rightarrow> string \<Rightarrow> attr_value
       \<Rightarrow> 'rx attr_error option \<Rightarrow> 'rx attr_error option"
where
  "match MatchString (MapAttrMatcher matcher) context v =
     (case v of
        VMapS x \<Rightarrow> matchEntries MatchString matcher context (lookupS x)
      | VMapI x \<Rightarrow> matchEntries MatchString matcher context (lookupI x)
      | VList l \<Rightarrow> matchList MatchString context (MapAttrMatcher matcher) 0 l
      | _ \<Rightarrow> Some (ErrMustBeMap context))"
| "match MatchString (RegexpAttrMatcher rx) context v =
     (case v of
        VString x \<Rightarrow>
          (if \<not> MatchString rx x then Some (ErrNoMatch context x rx) else None)
      | VBool x \<Rightarrow>
          (if \<not> MatchString rx (FormatBool x) then Some (ErrNoMatch context (FormatBool x) rx)
           else None)
      | VInt x \<Rightarrow>
          (if \<not> MatchString rx (Itoa x) then Some (ErrNoMatch context (Itoa x) rx) else None)
      | VList l \<Rightarrow> matchList MatchString context (RegexpAttrMatcher rx) 0 l
      | _ \<Rightarrow> Some (ErrMustBeScalarOrList context))"
| "match MatchString (AltAttrMatcher alts) context v = matchAlts MatchString alts context v None"
| "matchEntries MatchString [] context x = None"
| "matchEntries MatchString ((k, matcher1) # matcher) context x =
     (if x k = VNil then Some (ErrUnset (chain context k))
      else case match MatchString matcher1 (chain context k) (x k) of
             Some err \<Rightarrow> Some err
           | None \<Rightarrow> matchEntries MatchString matcher context x)"
| "matchList MatchString context matcher i [] = None"
| "matchList MatchString context matcher i (elem # l) =
     (case match MatchString matcher (chain context (Itoa (int i))) elem of
        Some err \<Rightarrow> Some err
      | None \<Rightarrow> matchList MatchString context matcher (Suc i) l)"
| "matchAlts MatchString [] context v firstErr = Some (ErrNoAlternative context firstErr)"
| "matchAlts MatchString (alt1 # alts) context v firstErr =
     (case match MatchString alt1 context v of
        None \<Rightarrow> None
      | Some err \<Rightarrow>
          matchAlts MatchString alts context v (if firstErr = None then Some err else firstErr))"
  by pat_completeness auto

termination match
  by (relation "inv_image (less_than <*lex*> less_than) (\<lambda>x. case x of
        Inl (Inl (_, m, _, v)) \<Rightarrow> (size m, size v)
      | Inl (Inr (_, es, _, _)) \<Rightarrow> (size_list (size_prod (\<lambda>_. 0) size) es, 0)
      | Inr (Inl (_, _, m, _, l)) \<Rightarrow> (size m, size_list size l)
      | Inr (Inr (_, alts, _, _, _)) \<Rightarrow> (size_list size alts, 0))") auto

datatype 'rx AttributeConstraints = AttributeConstraints (matcher: "'rx attrMatcher")

definition compileAttributeConstraints ::
  "(string \<Rightarrow> string + 'rx) \<Rightarrow> constraint \<Rightarrow> compile_error + 'rx AttributeConstraints" where
  "compileAttributeConstraints Compile constraints =
     (case compileAttrMatcher Compile \<lparr>dotted = [], hadMap = False, wasAlt = False\<rparr> constraints of
        Inl err \<Rightarrow> Inl err
      | Inr m \<Rightarrow> Inr (AttributeConstraints m))"

text \<open>\<^verbatim>\<open>Check\<close> takes a \<^verbatim>\<open>map[string]interface{}\<close>.\<close>

definition Check ::
  "('rx \<Rightarrow> string \<Rightarrow> bool) \<Rightarrow> 'rx AttributeConstraints \<Rightarrow> (string \<times> attr_value) list
     \<Rightarrow> 'rx attr_error option" where
  "Check MatchString c attrs = match MatchString (matcher c) [] (VMapS attrs)"

section \<open>Device assertions (package asserts)\<close>

text \<open>A header value: a string, a list, or a nested map.\<close>

datatype header_value =
    HString string
  | HList "header_value list"
  | HMap "(string \<times> header_value) list"

record assertionBase =
  headers :: "string \<rightharpoonup> header_value"
  body :: string

datatype assert_error =
    ErrHeaderMandatory string
  | ErrHeaderMustBeString string
  | ErrHeaderEmpty string
  | ErrAuthorityBrand string string string
  | ErrDecodePublicKey string
  | ErrKeyIdMismatch
  | ErrSignKeyMismatch
  | ErrTimestamp string

text \<open>What the two assemble functions use of the rest of the package, which is not among
  the sources at hand: decoding a public key, the key's self-computed fingerprint
  (\<^verbatim>\<open>PublicKey.ID\<close>), the check of an RFC3339 timestamp header, and the accessors
  \<^verbatim>\<open>SignKeyID\<close>, \<^verbatim>\<open>AuthorityID\<close> and \<^verbatim>\<open>Type().Name\<close> of an assertion. They are
  parameters.\<close>

record ('k, 't) asserts_pkg =
  DecodePublicKey :: "string \<Rightarrow> string + 'k"
  ID :: "'k \<Rightarrow> string"
  checkRFC3339Date :: "(string \<rightharpoonup> header_value) \<Rightarrow> string \<Rightarrow> string + 't"
  SignKeyID :: "assertionBase \<Rightarrow> string"
  AuthorityID :: "assertionBase \<Rightarrow> string"
  TypeName :: "assertionBase \<Rightarrow> string"

text \<open>Modelled from the spec: \<^verbatim>\<open>HeaderString\<close> is declared outside the sources at hand.
  A header map takes names to values that are strings, lists or maps; \<^verbatim>\<open>HeaderString\<close>
  reads a header as a string, the empty one when it is absent or not a string.\<close>

definition HeaderString :: "assertionBase \<Rightarrow> string \<Rightarrow> string" where
  "HeaderString a name = (case headers a name of Some (HString s) \<Rightarrow> s | _ \<Rightarrow> [])"

text \<open>Modelled from the spec: \<^verbatim>\<open>checkNotEmptyString\<close> is declared outside the sources at
  hand. A mandatory header must be there, be a string and not be empty.\<close>

definition checkNotEmptyString :: "(string \<rightharpoonup> header_value) \<Rightarrow> string \<Rightarrow> assert_error + string" where
  "checkNotEmptyString hs name =
     (case hs name of
        None \<Rightarrow> Inl (ErrHeaderMandatory name)
      | Some (HString s) \<Rightarrow> if s = [] then Inl (ErrHeaderEmpty name) else Inr s
      | Some _ \<Rightarrow> Inl (ErrHeaderMustBeString name))"

text \<open>Modelled from the spec: \<^verbatim>\<open>checkOptionalString\<close> is declared outside the sources at
  hand. An optional header must be a string when it is there, and reads as the empty string
  when it is not.\<close>

definition checkOptionalString :: "(string \<rightharpoonup> header_value) \<Rightarrow> string \<Rightarrow> assert_error + string" where
  "checkOptionalString hs name =
     (case hs name of
        None \<Rightarrow> Inr []
      | Some (HString s) \<Rightarrow> Inr s
      | Some _ \<Rightarrow> Inl (ErrHeaderMustBeString name))"

definition checkAuthorityMatchesBrand :: "('k, 't) asserts_pkg \<Rightarrow> assertionBase \<Rightarrow> assert_error option" where
  "checkAuthorityMatchesBrand P a =
     (let typeName = TypeName P a;
          authorityID = AuthorityID P a;
          brand = HeaderString a ''brand-id''
      in if brand \<noteq> authorityID then Some (ErrAuthorityBrand typeName authorityID brand) else None)"

record ('k, 't) Serial =
  serial_base :: assertionBase
  serial_timestamp :: 't
  serial_pubKey :: 'k

definition assembleSerial :: "('k, 't) asserts_pkg \<Rightarrow> assertionBase \<Rightarrow> assert_error + ('k, 't) Serial" where
  "assembleSerial P assert =
     (case checkAuthorityMatchesBrand P assert of
        Some err \<Rightarrow> Inl err
      | None \<Rightarrow>
     (case checkNotEmptyString (headers assert) ''device-key'' of
        Inl err \<Rightarrow> Inl err
      | Inr encodedKey \<Rightarrow>
     (case DecodePublicKey P encodedKey of
        Inl err \<Rightarrow> Inl (ErrDecodePublicKey err)
      | Inr pubKey \<Rightarrow>
     (case checkNotEmptyString (headers assert) ''device-key-sha3-384'' of
        Inl err \<Rightarrow> Inl err
      | Inr keyID \<Rightarrow>
          if keyID \<noteq> ID P pubKey then Inl ErrKeyIdMismatch
          else
     (case checkRFC3339Date P (headers assert) ''timestamp'' of
        Inl err \<Rightarrow> Inl (ErrTimestamp err)
      | Inr timestamp \<Rightarrow>
          Inr \<lparr>serial_base = assert, serial_timestamp = timestamp, serial_pubKey = pubKey\<rparr>)))))"

record 'k SerialRequest =
  sreq_base :: assertionBase
  sreq_pubKey :: 'k

definition assembleSerialRequest :: "('k, 't) asserts_pkg \<Rightarrow> assertionBase \<Rightarrow> assert_error + 'k SerialRequest" where
  "assembleSerialRequest P assert =
     (case checkNotEmptyString (headers assert) ''brand-id'' of
        Inl err \<Rightarrow> Inl err
      | Inr _ \<Rightarrow>
     (case checkNotEmptyString (headers assert) ''model'' of
        Inl err \<Rightarrow> Inl err
      | Inr _ \<Rightarrow>
     (case checkNotEmptyString (headers assert) ''request-id'' of
        Inl err \<Rightarrow> Inl err
      | Inr _ \<Rightarrow>
     (case checkOptionalString (headers assert) ''serial'' of
        Inl err \<Rightarrow> Inl err
      | Inr _ \<Rightarrow>
     (case checkNotEmptyString (headers assert) ''device-key'' of
        Inl err \<Rightarrow> Inl err
      | Inr encodedKey \<Rightarrow>
     (case DecodePublicKey P encodedKey of
        Inl err \<Rightarrow> Inl (ErrDecodePublicKey err)
      | Inr pubKey \<Rightarrow>
          if ID P pubKey \<noteq> SignKeyID P assert then Inl ErrSignKeyMismatch
          else Inr \<lparr>sreq_base = assert, sreq_pubKey = pubKey\<rparr>))))))"

section \<open>The API of the daemon (package daemon)\<close>

subsection \<open>Responses\<close>

datatype ResponseType = ResponseTypeSync | ResponseTypeAsync | ResponseTypeError

record errorResult =
  Message :: string
  Kind :: string
  Value :: "(string \<times> string list) list"

datatype 'a result = ResultNil | ResultError errorResult | ResultValue 'a

text \<open>A response: its type, its HTTP status code, its result, and the id of the change
  of an asynchronous one (the \<^verbatim>\<open>Meta\<close> argument).\<close>

record 'a resp =
  Type :: ResponseType
  Status :: nat
  Result :: "'a result"
  Change :: "string option"

text \<open>\<^verbatim>\<open>ErrorResponse\<close> of \<^verbatim>\<open>response.go\<close> builds a response of type error with the
  given status. The handlers of \<^verbatim>\<open>api.go\<close> call the standard error responses with a format;
  the formatted message is the message of the result.\<close>

definition ErrorResponse :: "nat \<Rightarrow> string \<Rightarrow> 'a resp" where
  "ErrorResponse status msg =
     \<lparr>Type = ResponseTypeError, Status = status,
      Result = ResultError \<lparr>Message = msg, Kind = [], Value = []\<rparr>, Change = None\<rparr>"

text \<open>Modelled from the spec: \<^verbatim>\<open>BadRequest\<close> is declared outside the sources at hand; it
  is the error response with the HTTP status 400 of its name.\<close>

definition BadRequest :: "string \<Rightarrow> 'a resp" where
  "BadRequest msg = ErrorResponse 400 msg"

text \<open>Modelled from the spec: \<^verbatim>\<open>Unauthorized\<close> is declared outside the sources at hand;
  it is the error response with the HTTP status 401 of its name.\<close>

definition Unauthorized :: "string \<Rightarrow> 'a resp" where
  "Unauthorized msg = ErrorResponse 401 msg"

text \<open>\<^verbatim>\<open>NotFound\<close> and \<^verbatim>\<open>InternalError\<close> are the error responses with
  \<^verbatim>\<open>http.StatusNotFound\<close> and \<^verbatim>\<open>http.StatusInternalServerError\<close>.\<close>

definition NotFound :: "string \<Rightarrow> 'a resp" where
  "NotFound msg = ErrorResponse 404 msg"

definition InternalError :: "string \<Rightarrow> 'a resp" where
  "InternalError msg = ErrorResponse 500 msg"

text \<open>Modelled from the spec: \<^verbatim>\<open>NotImplemented\<close> is declared outside the sources at hand;
  it is the error response with the HTTP status 501 of its name.\<close>

definition NotImplemented :: "string \<Rightarrow> 'a resp" where
  "NotImplemented msg = ErrorResponse 501 msg"

text \<open>Modelled from the spec: the \<^verbatim>\<open>SyncResponse\<close> of two arguments that \<^verbatim>\<open>api.go\<close> calls
  is declared outside the sources at hand (the one of \<^verbatim>\<open>response.go\<close> takes one). A
  synchronous response has status 200 and carries its payload as the result.\<close>

definition SyncResponse :: "'a \<Rightarrow> 'a resp" where
  "SyncResponse payload =
     \<lparr>Type = ResponseTypeSync, Status = 200, Result = ResultValue payload, Change = None\<rparr>"

text \<open>Modelled from the spec: \<^verbatim>\<open>SyncResponse\<close> applied to a response, as \<open>loginUser\<close>
  does with its error responses, gives that response: the scenario of a login without an
  email address answers the status and the kind of the response passed.\<close>

definition SyncResponse_resp :: "'a resp \<Rightarrow> 'a resp" where
  "SyncResponse_resp rsp = rsp"

text \<open>Modelled from the spec: \<^verbatim>\<open>AsyncResponse\<close> is declared outside the sources at hand.
  An asynchronous response has status 202 and carries the id of the change.\<close>

definition AsyncResponse :: "string \<Rightarrow> 'a resp" where
  "AsyncResponse chg =
     \<lparr>Type = ResponseTypeAsync, Status = 202, Result = ResultNil, Change = Some chg\<rparr>"

text \<open>Modelled from the spec: the error kinds are declared outside the sources at hand;
  their values are the kinds the spec lists for error responses.\<close>

definition errorKindInvalidAuthData :: string where
  "errorKindInvalidAuthData = ''invalid-auth-data''"

text \<open>Modelled from the spec: the kind of the error of a login that needs a second
  factor.\<close>

definition errorKindTwoFactorRequired :: string where
  "errorKindTwoFactorRequired = ''two-factor-required''"

text \<open>Modelled from the spec: the kind of the error of a login whose second factor
  failed.\<close>

definition errorKindTwoFactorFailed :: string where
  "errorKindTwoFactorFailed = ''two-factor-failed''"

subsection \<open>The world outside the handlers\<close>

text \<open>\<^verbatim>\<open>snap.Revision\<close>, made by \<^verbatim>\<open>snap.R\<close> from an integer.\<close>

datatype Revision = R int

text \<open>Modelled from the spec: \<^verbatim>\<open>Unset\<close> is declared outside the sources at hand; a
  revision is set when it is not the zero revision, the one \<open>ensureUbuntuCore\<close> passes for
  no revision in particular.\<close>

fun Unset :: "Revision \<Rightarrow> bool" where
  "Unset (R n) = (n = 0)"

text \<open>\<^verbatim>\<open>snapstate.Flags\<close> is a bit mask; the handlers only start from zero and set the two
  mode bits, so a value is the set of the bits that are on.\<close>

datatype flag = DevMode_flag | JailMode_flag

type_synonym Flags = "flag set"

datatype TaskSet = TaskSet nat

text \<open>The handlers work through the overlord's state, the store and the managers, none of
  which is among the sources at hand. Each call to them is recorded, in order, in a
  history; what a call answers is a parameter that may depend on the history so far.\<close>

datatype call =
    StateLock
  | StateUnlock
  | EnsureBefore0
  | StoreLoginUser string string string
  | AuthNewUser string string "string list"
  | SnapstateGet string
  | SnapstateInstall string string Revision int Flags
  | SnapstateUpdate string string Revision int Flags
  | SnapstateRemove string Revision
  | SnapstateRevert string Flags
  | SnapstateRevertToRevision string Revision Flags
  | SnapstateEnable string
  | SnapstateDisable string
  | SnapstateUpdateMany "string list" int
  | SnapstateInstallMany "string list" int
  | SnapstateRemoveMany "string list"
  | AssertstateRefreshSnapDeclarations int
  | IfacestateConnect string string string string
  | IfacestateDisconnect string string string string
  | TaskSetWaitAll TaskSet TaskSet
  | StateNewChange string string
  | ChangeAddAll string TaskSet
  | ChangeSetSnapNames string "string list"
  | ChangeSetApiData string "string list option"
  | ChangeSetStatusDone string
  | StateChange string
  | ChangeStatusReady string
  | ChangeAbort string
  | ConfigstateNewTransaction
  | TransactionGet string string

type_synonym history = "call list"

datatype store_error =
    ErrAuthenticationNeeds2fa
  | Err2faFailed
  | ErrInvalidAuthData "(string \<times> string list) list"
  | ErrStoreOther string

datatype get_error = GetNil | ErrNoState | GetErr string

text \<open>The daemon a command belongs to, with what the handlers read of the platform
  (\<^verbatim>\<open>release.ReleaseInfo.ForceDevMode()\<close>), the \<^verbatim>\<open>%q\<close> verb of package fmt, and the
  answers of the calls. \<open>routerGet\<close> tells whether the router has a route of that name.
  \<open>taskSetOf\<close> answers every call that returns a task set and an error, \<open>manyOf\<close> every
  call that returns names, task sets and an error.\<close>

record ('v, 'ci) daemon =
  routerGet :: "string \<Rightarrow> bool"
  enableInternalInterfaceActions :: bool
  ForceDevMode :: bool
  fmt_q :: "string \<Rightarrow> string"
  storeLoginUser :: "history \<Rightarrow> string \<Rightarrow> string \<Rightarrow> string \<Rightarrow> store_error + string \<times> string"
  storeErrorText :: "store_error \<Rightarrow> string"
  authNewUser :: "history \<Rightarrow> string \<Rightarrow> string \<Rightarrow> string list \<Rightarrow> string option"
  snapstateGet :: "history \<Rightarrow> string \<Rightarrow> get_error"
  taskSetOf :: "history \<Rightarrow> call \<Rightarrow> string + TaskSet"
  manyOf :: "history \<Rightarrow> call \<Rightarrow> string + (string list option \<times> TaskSet list)"
  refreshSnapDeclarations :: "history \<Rightarrow> int \<Rightarrow> string option"
  newChangeID :: "history \<Rightarrow> string"
  stateChange :: "history \<Rightarrow> string \<Rightarrow> bool"
  changeStatusReady :: "history \<Rightarrow> string \<Rightarrow> bool"
  change2changeInfo :: "history \<Rightarrow> string \<Rightarrow> 'ci"
  transactionGet :: "history \<Rightarrow> string \<Rightarrow> string \<Rightarrow> string + 'v"

definition callTaskSet :: "('v, 'ci) daemon \<Rightarrow> call \<Rightarrow> history \<Rightarrow> (string + TaskSet) \<times> history" where
  "callTaskSet d c w = (taskSetOf d w c, w @ [c])"

definition callMany ::
  "('v, 'ci) daemon \<Rightarrow> call \<Rightarrow> history \<Rightarrow> (string + (string list option \<times> TaskSet list)) \<times> history" where
  "callMany d c w = (manyOf d w c, w @ [c])"

definition stateChangeCmd_Path :: string where
  "stateChangeCmd_Path = ''/v2/changes/{id}''"

text \<open>\<^verbatim>\<open>strings.Join\<close>, and \<^verbatim>\<open>strings.Split\<close> with a separator of one character.\<close>

fun Join :: "string list \<Rightarrow> string \<Rightarrow> string" where
  "Join [] sep = []"
| "Join [x] sep = x"
| "Join (x # y # xs) sep = x @ sep @ Join (y # xs) sep"

fun split_from :: "string \<Rightarrow> char \<Rightarrow> string \<Rightarrow> string list" where
  "split_from [] sep cur = [rev cur]"
| "split_from (c # cs) sep cur =
     (if c = sep then rev cur # split_from cs sep [] else split_from cs sep (c # cur))"

definition Split :: "string \<Rightarrow> char \<Rightarrow> string list" where
  "Split s sep = split_from s sep []"

text \<open>The \<^verbatim>\<open>%q\<close> verb applied to a slice of strings.\<close>

definition fmt_q_list :: "('v, 'ci) daemon \<Rightarrow> string list \<Rightarrow> string" where
  "fmt_q_list d xs = ''['' @ Join (map (fmt_q d) xs) '' '' @ '']''"

subsection \<open>Login\<close>

record loginData =
  Username :: string
  Password :: string
  Otp :: string

record loginResponseData =
  Macaroon :: string
  Discharges :: "string list"

definition isEmailish_pattern :: string where
  "isEmailish_pattern = ''.@.*'' @ [CHR 0x5C] @ ''..''"

definition isEmailish :: "string \<Rightarrow> bool" where
  "isEmailish s = (case rx_MustCompile isEmailish_pattern of None \<Rightarrow> False | Some rx \<Rightarrow> rx_MatchString rx s)"

text \<open>The body of the request is given decoded: \<open>Inl\<close> is the error of the decoder.\<close>

definition loginUser ::
  "('v, 'ci) daemon \<Rightarrow> string + loginData \<Rightarrow> history \<Rightarrow> loginResponseData resp \<times> history" where
  "loginUser d reqBody w =
     (case reqBody of
        Inl err \<Rightarrow> (BadRequest (''cannot decode login data from request body: '' @ err), w)
      | Inr loginData \<Rightarrow>
          if \<not> isEmailish (Username loginData) then
            (SyncResponse_resp
               \<lparr>Type = ResponseTypeError, Status = 400,
                Result = ResultError
                  \<lparr>Message = ''please use a valid email address.'',
                   Kind = errorKindInvalidAuthData,
                   Value = [(''email'', [''invalid''])]\<rparr>,
                Change = None\<rparr>, w)
          else
            let w1 = w @ [StoreLoginUser (Username loginData) (Password loginData) (Otp loginData)] in
            (case storeLoginUser d w (Username loginData) (Password loginData) (Otp loginData) of
               Inl ErrAuthenticationNeeds2fa \<Rightarrow>
                 (SyncResponse_resp
                    \<lparr>Type = ResponseTypeError, Status = 401,
                     Result = ResultError
                       \<lparr>Message = storeErrorText d ErrAuthenticationNeeds2fa,
                        Kind = errorKindTwoFactorRequired, Value = []\<rparr>,
                     Change = None\<rparr>, w1)
             | Inl Err2faFailed \<Rightarrow>
                 (SyncResponse_resp
                    \<lparr>Type = ResponseTypeError, Status = 401,
                     Result = ResultError
                       \<lparr>Message = storeErrorText d Err2faFailed,
                        Kind = errorKindTwoFactorFailed, Value = []\<rparr>,
                     Change = None\<rparr>, w1)
             | Inl (ErrInvalidAuthData v) \<Rightarrow>
                 (SyncResponse_resp
                    \<lparr>Type = ResponseTypeError, Status = 400,
                     Result = ResultError
                       \<lparr>Message = storeErrorText d (ErrInvalidAuthData v),
                        Kind = errorKindInvalidAuthData, Value = v\<rparr>,
                     Change = None\<rparr>, w1)
             | Inl (ErrStoreOther e) \<Rightarrow> (Unauthorized (storeErrorText d (ErrStoreOther e)), w1)
             | Inr (macaroon, discharge) \<Rightarrow>
                 let w2 = w1 @ [StateLock];
                     err = authNewUser d w2 (Username loginData) macaroon [discharge];
                     w3 = w2 @ [AuthNewUser (Username loginData) macaroon [discharge], StateUnlock]
                 in (case err of
                       Some e \<Rightarrow> (InternalError (''cannot persist authentication details: '' @ e), w3)
                     | None \<Rightarrow>
                         (SyncResponse \<lparr>Macaroon = macaroon, Discharges = [discharge]\<rparr>, w3))))"

subsection \<open>Operations on snaps\<close>

text \<open>The decoded instruction. The license field of the source is read by none of the
  handlers below and is left out.\<close>

record snapInstruction =
  Action :: string
  Channel :: string
  Revision :: Revision
  DevMode :: bool
  JailMode :: bool
  LeaveOld :: bool
  Snaps :: "string list"
  userID :: int

datatype op_error =
    errNothingToInstall
  | errModeConflict
  | errNoJailMode
  | Err string

fun Error :: "op_error \<Rightarrow> string" where
  "Error errNothingToInstall = ''nothing to install''"
| "Error errModeConflict = ''cannot use devmode and jailmode flags together''"
| "Error errNoJailMode = ''this system cannot honour the jailmode flag''"
| "Error (Err msg) = msg"

definition ensureUbuntuCore ::
  "('v, 'ci) daemon \<Rightarrow> string \<Rightarrow> int \<Rightarrow> history \<Rightarrow> (TaskSet option \<times> op_error option) \<times> history" where
  "ensureUbuntuCore d targetSnap uid w =
     (let ubuntuCore = ''ubuntu-core'' in
      if targetSnap = ubuntuCore then ((None, Some errNothingToInstall), w)
      else
        let err = snapstateGet d w ubuntuCore;
            w1 = w @ [SnapstateGet ubuntuCore]
        in case err of
             GetNil \<Rightarrow> ((None, None), w1)
           | GetErr e \<Rightarrow> ((None, Some (Err e)), w1)
           | ErrNoState \<Rightarrow>
               (case callTaskSet d (SnapstateInstall ubuntuCore ''stable'' (R 0) uid {}) w1 of
                  (Inl e, w2) \<Rightarrow> ((None, Some (Err e)), w2)
                | (Inr ts, w2) \<Rightarrow> ((Some ts, None), w2)))"

definition withEnsureUbuntuCore ::
  "('v, 'ci) daemon \<Rightarrow> string \<Rightarrow> int \<Rightarrow> (history \<Rightarrow> (string + TaskSet) \<times> history) \<Rightarrow> history
     \<Rightarrow> (op_error + TaskSet list) \<times> history" where
  "withEnsureUbuntuCore d targetSnap uid install w =
     (case ensureUbuntuCore d targetSnap uid w of
        ((ubuCoreTs, err), w1) \<Rightarrow>
          let installed =
            (case install w1 of
               (Inl e, w2) \<Rightarrow> (Inl (Err e), w2)
             | (Inr ts, w2) \<Rightarrow>
                 (case ubuCoreTs of
                    Some u \<Rightarrow> (Inr [u, ts], w2 @ [TaskSetWaitAll ts u])
                  | None \<Rightarrow> (Inr [ts], w2)))
          in (case err of
                Some e \<Rightarrow> (if e \<noteq> errNothingToInstall then (Inl e, w1) else installed)
              | None \<Rightarrow> installed))"

definition modeFlags :: "('v, 'ci) daemon \<Rightarrow> bool \<Rightarrow> bool \<Rightarrow> op_error + Flags" where
  "modeFlags d devMode jailMode =
     (let devModeOS = ForceDevMode d;
          withDevMode = (\<lambda>flags. Inr (if devMode \<or> devModeOS then insert DevMode_flag flags else flags))
      in if jailMode then
           (if devModeOS then Inl errNoJailMode
            else if devMode then Inl errModeConflict
            else withDevMode {JailMode_flag})
         else withDevMode {})"

type_synonym ('v, 'ci) snapActionFunc =
  "('v, 'ci) daemon \<Rightarrow> snapInstruction \<Rightarrow> history \<Rightarrow> (op_error + string \<times> TaskSet list) \<times> history"

text \<open>In the action functions \<^verbatim>\<open>inst.Snaps[0]\<close> is read after \<open>dispatch\<close> has checked
  that there is exactly one name. The messages go through \<^verbatim>\<open>i18n.G\<close>, taken as the
  identity (no translation), and the notices of the logger are left out.\<close>

definition snapInstall :: "('v, 'ci) snapActionFunc" where
  "snapInstall d inst w =
     (case modeFlags d (DevMode inst) (JailMode inst) of
        Inl err \<Rightarrow> (Inl err, w)
      | Inr flags \<Rightarrow>
          (case withEnsureUbuntuCore d (Snaps inst ! 0) (userID inst)
                  (callTaskSet d (SnapstateInstall (Snaps inst ! 0) (Channel inst) (Revision inst)
                                    (userID inst) flags)) w of
             (Inl err, w1) \<Rightarrow> (Inl err, w1)
           | (Inr tsets, w1) \<Rightarrow>
               (Inr (if Channel inst \<noteq> ''stable'' \<and> Channel inst \<noteq> []
                     then ''Install '' @ fmt_q d (Snaps inst ! 0) @ '' snap from ''
                            @ fmt_q d (Channel inst) @ '' channel''
                     else ''Install '' @ fmt_q d (Snaps inst ! 0) @ '' snap'', tsets), w1)))"

definition snapUpdate :: "('v, 'ci) snapActionFunc" where
  "snapUpdate d inst w =
     (case modeFlags d (DevMode inst) (JailMode inst) of
        Inl err \<Rightarrow> (Inl err, w)
      | Inr flags \<Rightarrow>
          let w1 = w @ [AssertstateRefreshSnapDeclarations (userID inst)] in
          (case refreshSnapDeclarations d w (userID inst) of
             Some e \<Rightarrow> (Inl (Err e), w1)
           | None \<Rightarrow>
               (case callTaskSet d (SnapstateUpdate (Snaps inst ! 0) (Channel inst) (Revision inst)
                                      (userID inst) flags) w1 of
                  (Inl e, w2) \<Rightarrow> (Inl (Err e), w2)
                | (Inr ts, w2) \<Rightarrow>
                    (Inr (if Channel inst \<noteq> ''stable'' \<and> Channel inst \<noteq> []
                          then ''Refresh '' @ fmt_q d (Snaps inst ! 0) @ '' snap from ''
                                 @ fmt_q d (Channel inst) @ '' channel''
                          else ''Refresh '' @ fmt_q d (Snaps inst ! 0) @ '' snap'', [ts]), w2))))"

definition snapRemove :: "('v, 'ci) snapActionFunc" where
  "snapRemove d inst w =
     (case callTaskSet d (SnapstateRemove (Snaps inst ! 0) (Revision inst)) w of
        (Inl e, w1) \<Rightarrow> (Inl (Err e), w1)
      | (Inr ts, w1) \<Rightarrow> (Inr (''Remove '' @ fmt_q d (Snaps inst ! 0) @ '' snap'', [ts]), w1))"

definition snapRevert :: "('v, 'ci) snapActionFunc" where
  "snapRevert d inst w =
     (case modeFlags d (DevMode inst) (JailMode inst) of
        Inl err \<Rightarrow> (Inl err, w)
      | Inr flags \<Rightarrow>
          (case (if Unset (Revision inst)
                 then callTaskSet d (SnapstateRevert (Snaps inst ! 0) flags) w
                 else callTaskSet d (SnapstateRevertToRevision (Snaps inst ! 0) (Revision inst) flags) w) of
             (Inl e, w1) \<Rightarrow> (Inl (Err e), w1)
           | (Inr ts, w1) \<Rightarrow> (Inr (''Revert '' @ fmt_q d (Snaps inst ! 0) @ '' snap'', [ts]), w1)))"

definition snapEnable :: "('v, 'ci) snapActionFunc" where
  "snapEnable d inst w =
     (if \<not> Unset (Revision inst) then (Inl (Err ''enable takes no revision''), w)
      else case callTaskSet d (SnapstateEnable (Snaps inst ! 0)) w of
             (Inl e, w1) \<Rightarrow> (Inl (Err e), w1)
           | (Inr ts, w1) \<Rightarrow> (Inr (''Enable '' @ fmt_q d (Snaps inst ! 0) @ '' snap'', [ts]), w1))"

definition snapDisable :: "('v, 'ci) snapActionFunc" where
  "snapDisable d inst w =
     (if \<not> Unset (Revision inst) then (Inl (Err ''disable takes no revision''), w)
      else case callTaskSet d (SnapstateDisable (Snaps inst ! 0)) w of
             (Inl e, w1) \<Rightarrow> (Inl (Err e), w1)
           | (Inr ts, w1) \<Rightarrow> (Inr (''Disable '' @ fmt_q d (Snaps inst ! 0) @ '' snap'', [ts]), w1))"

definition snapInstructionDispTable :: "string \<rightharpoonup> ('v, 'ci) snapActionFunc" where
  "snapInstructionDispTable =
     [''install'' \<mapsto> snapInstall,
      ''refresh'' \<mapsto> snapUpdate,
      ''remove'' \<mapsto> snapRemove,
      ''revert'' \<mapsto> snapRevert,
      ''enable'' \<mapsto> snapEnable,
      ''disable'' \<mapsto> snapDisable]"

text \<open>\<open>dispatch\<close> panics (\<open>Inl\<close>) unless there is exactly one name.\<close>

definition dispatch :: "snapInstruction \<Rightarrow> string + ('v, 'ci) snapActionFunc option" where
  "dispatch inst =
     (if length (Snaps inst) \<noteq> 1
      then Inl (''dispatch only handles single-snap ops; got '' @ Itoa (int (length (Snaps inst))))
      else Inr (snapInstructionDispTable (Action inst)))"

fun addAll :: "string \<Rightarrow> TaskSet list \<Rightarrow> history \<Rightarrow> history" where
  "addAll chg [] w = w"
| "addAll chg (ts # tsets) w = addAll chg tsets (w @ [ChangeAddAll chg ts])"

text \<open>\<open>newChange\<close> answers the id of the change it made.\<close>

definition newChange ::
  "('v, 'ci) daemon \<Rightarrow> string \<Rightarrow> string \<Rightarrow> TaskSet list \<Rightarrow> string list option \<Rightarrow> history
     \<Rightarrow> string \<times> history" where
  "newChange d kind summary tsets snapNames w =
     (let chg = newChangeID d w;
          w1 = addAll chg tsets (w @ [StateNewChange kind summary])
      in case snapNames of
           Some names \<Rightarrow> (chg, w1 @ [ChangeSetSnapNames chg names])
         | None \<Rightarrow> (chg, w1))"

datatype 'a outcome = Returns 'a | Panics string

text \<open>The handler of POST on \<^verbatim>\<open>/v2/snaps/{name}\<close>. \<open>name\<close> is the variable of the route
  and \<open>user\<close> the id of the user of the request, if any.\<close>

definition postSnap ::
  "('v, 'ci) daemon \<Rightarrow> string \<Rightarrow> string + snapInstruction \<Rightarrow> int option \<Rightarrow> history
     \<Rightarrow> unit resp outcome \<times> history" where
  "postSnap d name reqBody user w =
     (if \<not> routerGet d stateChangeCmd_Path
      then (Returns (InternalError ''cannot find route for change''), w)
      else case reqBody of
        Inl err \<Rightarrow>
          (Returns (BadRequest (''cannot decode request body into snap instruction: '' @ err)), w)
      | Inr decoded \<Rightarrow>
          let w1 = w @ [StateLock];
              inst = decoded\<lparr>userID := (case user of Some uid \<Rightarrow> uid | None \<Rightarrow> userID decoded),
                              Snaps := [name]\<rparr>
          in (case dispatch inst of
                Inl p \<Rightarrow> (Panics p, w1 @ [StateUnlock])
              | Inr None \<Rightarrow>
                  (Returns (BadRequest (''unknown action '' @ Action inst)), w1 @ [StateUnlock])
              | Inr (Some impl) \<Rightarrow>
                  (case impl d inst w1 of
                     (Inl err, w2) \<Rightarrow>
                       (Returns (BadRequest (''cannot '' @ Action inst @ '' '' @ fmt_q d (Snaps inst ! 0)
                                              @ '': '' @ Error err)), w2 @ [StateUnlock])
                   | (Inr (msg, tsets), w2) \<Rightarrow>
                       (case newChange d (Action inst @ ''-snap'') msg tsets (Some (Snaps inst)) w2 of
                          (chg, w3) \<Rightarrow>
                            (Returns (AsyncResponse chg), w3 @ [EnsureBefore0, StateUnlock])))))"

subsection \<open>Operations on several snaps\<close>

definition quotedNames :: "('v, 'ci) daemon \<Rightarrow> string list \<Rightarrow> string" where
  "quotedNames d names = Join (map (fmt_q d) names) '', ''"

definition snapUpdateMany ::
  "('v, 'ci) daemon \<Rightarrow> snapInstruction \<Rightarrow> history
     \<Rightarrow> (op_error + string \<times> string list option \<times> TaskSet list) \<times> history" where
  "snapUpdateMany d inst w =
     (let w1 = w @ [AssertstateRefreshSnapDeclarations (userID inst)] in
      case refreshSnapDeclarations d w (userID inst) of
        Some e \<Rightarrow> (Inl (Err e), w1)
      | None \<Rightarrow>
          (case callMany d (SnapstateUpdateMany (Snaps inst) (userID inst)) w1 of
             (Inl e, w2) \<Rightarrow> (Inl (Err e), w2)
           | (Inr (updated, tasksets), w2) \<Rightarrow>
               (Inr (case Snaps inst of
                       [] \<Rightarrow> ''Refresh all snaps in the system''
                     | [n] \<Rightarrow> ''Refresh snap '' @ fmt_q d n
                     | _ \<Rightarrow> ''Refresh snaps '' @ quotedNames d (Snaps inst),
                     updated, tasksets), w2)))"

definition snapInstallMany ::
  "('v, 'ci) daemon \<Rightarrow> snapInstruction \<Rightarrow> history
     \<Rightarrow> (op_error + string \<times> string list option \<times> TaskSet list) \<times> history" where
  "snapInstallMany d inst w =
     (case callMany d (SnapstateInstallMany (Snaps inst) (userID inst)) w of
        (Inl e, w1) \<Rightarrow> (Inl (Err e), w1)
      | (Inr (installed, tasksets), w1) \<Rightarrow>
          (case Snaps inst of
             [] \<Rightarrow> (Inl (Err ''cannot install zero snaps''), w1)
           | [n] \<Rightarrow> (Inr (''Install snap '' @ fmt_q d n, installed, tasksets), w1)
           | _ \<Rightarrow> (Inr (''Install snaps '' @ quotedNames d (Snaps inst), installed, tasksets), w1)))"

definition snapRemoveMany ::
  "('v, 'ci) daemon \<Rightarrow> snapInstruction \<Rightarrow> history
     \<Rightarrow> (op_error + string \<times> string list option \<times> TaskSet list) \<times> history" where
  "snapRemoveMany d inst w =
     (case callMany d (SnapstateRemoveMany (Snaps inst)) w of
        (Inl e, w1) \<Rightarrow> (Inl (Err e), w1)
      | (Inr (removed, tasksets), w1) \<Rightarrow>
          (case Snaps inst of
             [] \<Rightarrow> (Inl (Err ''cannot remove zero snaps''), w1)
           | [n] \<Rightarrow> (Inr (''Remove snap '' @ fmt_q d n, removed, tasksets), w1)
           | _ \<Rightarrow> (Inr (''Remove snaps '' @ quotedNames d (Snaps inst), removed, tasksets), w1)))"

text \<open>The handler of a JSON POST on \<^verbatim>\<open>/v2/snaps\<close>.\<close>

definition snapsOp ::
  "('v, 'ci) daemon \<Rightarrow> string + snapInstruction \<Rightarrow> int option \<Rightarrow> history \<Rightarrow> unit resp \<times> history" where
  "snapsOp d reqBody user w =
     (if \<not> routerGet d stateChangeCmd_Path
      then (InternalError ''cannot find route for change'', w)
      else case reqBody of
        Inl err \<Rightarrow> (BadRequest (''cannot decode request body into snap instruction: '' @ err), w)
      | Inr decoded \<Rightarrow>
          if Channel decoded \<noteq> [] \<or> \<not> Unset (Revision decoded) \<or> DevMode decoded \<or> JailMode decoded
          then (BadRequest ''unsupported option provided for multi-snap operation'', w)
          else
            let w1 = w @ [StateLock];
                inst = decoded\<lparr>userID := (case user of Some uid \<Rightarrow> uid | None \<Rightarrow> userID decoded)\<rparr>
            in if Action inst \<noteq> ''refresh'' \<and> Action inst \<noteq> ''install'' \<and> Action inst \<noteq> ''remove''
               then (BadRequest (''unsupported multi-snap operation '' @ fmt_q d (Action inst)),
                     w1 @ [StateUnlock])
               else
                 (case (if Action inst = ''refresh'' then snapUpdateMany d inst w1
                        else if Action inst = ''install'' then snapInstallMany d inst w1
                        else snapRemoveMany d inst w1) of
                    (Inl err, w2) \<Rightarrow>
                      (InternalError (''cannot '' @ Action inst @ '' '' @ fmt_q_list d (Snaps inst)
                                       @ '': '' @ Error err), w2 @ [StateUnlock])
                  | (Inr (msg, affected, tsets), w2) \<Rightarrow>
                      (case (if length tsets = 0
                             then (newChangeID d w2,
                                   w2 @ [StateNewChange (Action inst @ ''-snap'') msg,
                                         ChangeSetStatusDone (newChangeID d w2)])
                             else (case newChange d (Action inst @ ''-snap'') msg tsets affected w2 of
                                     (chg, w3) \<Rightarrow> (chg, w3 @ [EnsureBefore0]))) of
                         (chg, w4) \<Rightarrow>
                           (AsyncResponse chg, w4 @ [ChangeSetApiData chg affected, StateUnlock]))))"

subsection \<open>Configuration\<close>

text \<open>\<^verbatim>\<open>r.URL.Query()\<close> takes a name to the list of its values; \<^verbatim>\<open>Get\<close> gives the first
  one, or the empty string when there is none.\<close>

definition query_Get :: "(string \<Rightarrow> string list) \<Rightarrow> string \<Rightarrow> string" where
  "query_Get q k = (case q k of [] \<Rightarrow> [] | v # _ \<Rightarrow> v)"

text \<open>The loop over the keys, from the values collected so far.\<close>

fun getConfValues ::
  "('v, 'ci) daemon \<Rightarrow> string \<Rightarrow> string list \<Rightarrow> (string \<rightharpoonup> 'v) \<Rightarrow> history
     \<Rightarrow> (string + (string \<rightharpoonup> 'v)) \<times> history" where
  "getConfValues d snapName [] currentConfValues w = (Inr currentConfValues, w)"
| "getConfValues d snapName (key # keys) currentConfValues w =
     (case transactionGet d w snapName key of
        Inl err \<Rightarrow> (Inl err, w @ [TransactionGet snapName key])
      | Inr v \<Rightarrow>
          getConfValues d snapName keys (currentConfValues(key \<mapsto> v)) (w @ [TransactionGet snapName key]))"

definition getSnapConf ::
  "('v, 'ci) daemon \<Rightarrow> string \<Rightarrow> (string \<Rightarrow> string list) \<Rightarrow> history
     \<Rightarrow> (string \<rightharpoonup> 'v) resp \<times> history" where
  "getSnapConf d snapName query w =
     (let keys = Split (query_Get query ''keys'') CHR '','' in
      if length keys = 0
      then (BadRequest ''cannot obtain configuration: no keys supplied'', w)
      else
        (case getConfValues d snapName keys Map.empty
                (w @ [StateLock, ConfigstateNewTransaction, StateUnlock]) of
           (Inl err, w1) \<Rightarrow> (BadRequest err, w1)
         | (Inr currentConfValues, w1) \<Rightarrow> (SyncResponse currentConfValues, w1)))"

subsection \<open>Interfaces\<close>

text \<open>Of a plug and a slot the handler reads the snap and the name.\<close>

record plugJSON =
  plug_Snap :: string
  plug_Name :: string
  plug_Interface :: string
  plug_Label :: string

record slotJSON =
  slot_Snap :: string
  slot_Name :: string
  slot_Interface :: string
  slot_Label :: string

record interfaceAction =
  ia_Action :: string
  Plugs :: "plugJSON list"
  Slots :: "slotJSON list"

definition changeInterfaces ::
  "('v, 'ci) daemon \<Rightarrow> string + interfaceAction \<Rightarrow> history \<Rightarrow> unit resp \<times> history" where
  "changeInterfaces d reqBody w =
     (case reqBody of
        Inl err \<Rightarrow> (BadRequest (''cannot decode request body into an interface action: '' @ err), w)
      | Inr a \<Rightarrow>
          if ia_Action a = [] then (BadRequest ''interface action not specified'', w)
          else if \<not> enableInternalInterfaceActions d \<and> ia_Action a \<noteq> ''connect''
                    \<and> ia_Action a \<noteq> ''disconnect''
          then (BadRequest ''internal interface actions are disabled'', w)
          else if length (Plugs a) > 1 \<or> length (Slots a) > 1
          then (NotImplemented ''many-to-many operations are not implemented'', w)
          else if ia_Action a \<noteq> ''connect'' \<and> ia_Action a \<noteq> ''disconnect''
          then (BadRequest (''unsupported interface action: '' @ fmt_q d (ia_Action a)), w)
          else if length (Plugs a) = 0 \<or> length (Slots a) = 0
          then (BadRequest ''at least one plug and slot is required'', w)
          else
            let w1 = w @ [StateLock];
                plug = Plugs a ! 0;
                slot = Slots a ! 0;
                summary =
                  (if ia_Action a = ''connect''
                   then ''Connect '' @ plug_Snap plug @ '':'' @ plug_Name plug @ '' to ''
                          @ slot_Snap slot @ '':'' @ slot_Name slot
                   else ''Disconnect '' @ plug_Snap plug @ '':'' @ plug_Name plug @ '' from ''
                          @ slot_Snap slot @ '':'' @ slot_Name slot);
                c = (if ia_Action a = ''connect''
                     then IfacestateConnect (plug_Snap plug) (plug_Name plug) (slot_Snap slot) (slot_Name slot)
                     else IfacestateDisconnect (plug_Snap plug) (plug_Name plug) (slot_Snap slot) (slot_Name slot))
            in (case callTaskSet d c w1 of
                  (Inl err, w2) \<Rightarrow> (BadRequest err, w2 @ [StateUnlock])
                | (Inr taskset, w2) \<Rightarrow>
                    let chg = newChangeID d w2 in
                    (AsyncResponse chg,
                     w2 @ [StateNewChange (ia_Action a @ ''-snap'') summary,
                           ChangeSetSnapNames chg [plug_Snap plug, slot_Snap slot],
                           ChangeAddAll chg taskset,
                           EnsureBefore0,
                           StateUnlock])))"

subsection \<open>Changes\<close>

record abortData =
  ad_Action :: string

text \<open>The handler of POST on \<^verbatim>\<open>/v2/changes/{id}\<close>.\<close>

definition abortChange ::
  "('v, 'ci) daemon \<Rightarrow> string \<Rightarrow> string + abortData \<Rightarrow> history \<Rightarrow> 'ci resp \<times> history" where
  "abortChange d chID reqBody w =
     (let w1 = w @ [StateLock, StateChange chID] in
      if \<not> stateChange d (w @ [StateLock]) chID
      then (NotFound (''cannot find change with id '' @ fmt_q d chID), w1 @ [StateUnlock])
      else case reqBody of
        Inl err \<Rightarrow>
          (BadRequest (''cannot decode data from request body: '' @ err), w1 @ [StateUnlock])
      | Inr reqData \<Rightarrow>
          if ad_Action reqData \<noteq> ''abort''
          then (BadRequest (''change action '' @ fmt_q d (ad_Action reqData) @ '' is unsupported''),
                w1 @ [StateUnlock])
          else if changeStatusReady d w1 chID
          then (BadRequest (''cannot abort change '' @ chID @ '' with nothing pending''),
                w1 @ [ChangeStatusReady chID, StateUnlock])
          else
            let w2 = w1 @ [ChangeStatusReady chID, ChangeAbort chID, EnsureBefore0] in
            (SyncResponse (change2changeInfo d w2 chID), w2 @ [StateUnlock]))"

section \<open>Predicates and examples used by the statements\<close>

text \<open>A list of alternatives.\<close>

fun isAlternatives :: "constraint \<Rightarrow> bool" where
  "isAlternatives (CList l) = True"
| "isAlternatives _ = False"

text \<open>Somewhere in the tree a list of alternatives is an element of a list of
  alternatives.\<close>

fun nestedAlternatives :: "constraint \<Rightarrow> bool" where
  "nestedAlternatives (CList l) = (\<exists>c \<in> set l. isAlternatives c \<or> nestedAlternatives c)"
| "nestedAlternatives (CMap m) = (\<exists>c \<in> snd ` set m. nestedAlternatives c)"
| "nestedAlternatives _ = False"

text \<open>The first level that is not a list of alternatives is a string.\<close>

fun firstLevelRegexp :: "constraint \<Rightarrow> bool" where
  "firstLevelRegexp (CString s) = True"
| "firstLevelRegexp (CList l) = (\<exists>c \<in> set l. firstLevelRegexp c)"
| "firstLevelRegexp _ = False"

definition topContext :: compileContext where
  "topContext = \<lparr>dotted = [], hadMap = False, wasAlt = False\<rparr>"

text \<open>The value of a decimal numeral, to read back what \<open>itoa_nat\<close> writes.\<close>

definition decimal_value :: "string \<Rightarrow> nat" where
  "decimal_value s = foldl (\<lambda>a c. 10 * a + (of_char c - 48)) 0 s"

text \<open>The three patterns of the scenario, compiled.\<close>

definition rx_usb :: "rx_item list" where
  "rx_usb = [Bol, One (Lit CHR ''u''), One (Lit CHR ''s''), One (Lit CHR ''b''), Eol]"

definition rx_high :: "rx_item list" where
  "rx_high = [Bol, One (Lit CHR ''h''), One (Lit CHR ''i''), One (Lit CHR ''g''), One (Lit CHR ''h''), Eol]"

definition rx_full :: "rx_item list" where
  "rx_full = [Bol, One (Lit CHR ''f''), One (Lit CHR ''u''), One (Lit CHR ''l''), One (Lit CHR ''l''), Eol]"

text \<open>A package in which a key is its own encoding and its fingerprint is the key
  with a prefix.\<close>

definition example_pkg :: "(string, string) asserts_pkg" where
  "example_pkg =
     \<lparr>DecodePublicKey = (\<lambda>s. Inr s),
      ID = (\<lambda>k. ''id-'' @ k),
      checkRFC3339Date = (\<lambda>hs name. case hs name of Some (HString s) \<Rightarrow> Inr s | _ \<Rightarrow> Inl ''invalid''),
      SignKeyID = (\<lambda>a. HeaderString a ''sign-key-sha3-384''),
      AuthorityID = (\<lambda>a. HeaderString a ''authority-id''),
      TypeName = (\<lambda>a. HeaderString a ''type'')\<rparr>"

definition example_serial :: assertionBase where
  "example_serial =
     \<lparr>headers = [''authority-id'' \<mapsto> HString ''brand'', ''brand-id'' \<mapsto> HString ''brand'',
                 ''device-key'' \<mapsto> HString ''KEY'', ''device-key-sha3-384'' \<mapsto> HString ''id-KEY'',
                 ''timestamp'' \<mapsto> HString ''2016-08-24T21:55:00Z''],
      body = []\<rparr>"

definition example_serial_request :: assertionBase where
  "example_serial_request =
     \<lparr>headers = [''brand-id'' \<mapsto> HString ''brand'', ''model'' \<mapsto> HString ''pc'',
                 ''request-id'' \<mapsto> HString ''REQ'', ''device-key'' \<mapsto> HString ''KEY'',
                 ''sign-key-sha3-384'' \<mapsto> HString ''id-KEY''],
      body = []\<rparr>"

text \<open>A daemon in which every call outside succeeds: the change route is registered,
  internal interface actions are disabled, the platform does not force devmode, a string
  is quoted by putting it between double quotes, and the change of id 1 is ready.\<close>

definition example_daemon :: "(string, string) daemon" where
  "example_daemon =
     \<lparr>routerGet = (\<lambda>p. p = stateChangeCmd_Path),
      enableInternalInterfaceActions = False,
      ForceDevMode = False,
      fmt_q = (\<lambda>s. [CHR 0x22] @ s @ [CHR 0x22]),
      storeLoginUser = (\<lambda>w u p otp. Inr (''root-macaroon'', ''discharge-macaroon'')),
      storeErrorText = (\<lambda>e. ''store error''),
      authNewUser = (\<lambda>w u m ds. None),
      snapstateGet = (\<lambda>w n. GetNil),
      taskSetOf = (\<lambda>w c. Inr (TaskSet (length w))),
      manyOf = (\<lambda>w c. Inr (None, [])),
      refreshSnapDeclarations = (\<lambda>w uid. None),
      newChangeID = (\<lambda>w. ''1''),
      stateChange = (\<lambda>w chID. chID = ''1''),
      changeStatusReady = (\<lambda>w chID. True),
      change2changeInfo = (\<lambda>w chID. chID),
      transactionGet = (\<lambda>w snapName key. Inr key)\<rparr>"

definition example_instruction :: snapInstruction where
  "example_instruction =
     \<lparr>Action = ''install'', Channel = [], Revision = R 0, DevMode = True, JailMode = True,
      LeaveOld = False, Snaps = [], userID = 0\<rparr>"

definition example_plug :: plugJSON where
  "example_plug = \<lparr>plug_Snap = ''a'', plug_Name = ''p'', plug_Interface = [], plug_Label = []\<rparr>"

definition example_slot :: slotJSON where
  "example_slot = \<lparr>slot_Snap = ''b'', slot_Name = ''s'', slot_Interface = [], slot_Label = []\<rparr>"

section \<open>Properties of the library functions\<close>

lemma digit_char_value: "d < 10 \<Longrightarrow> of_char (digit_char d) = 48 + d"
proof -
  assume "d < 10"
  then have "d = 0 \<or> d = 1 \<or> d = 2 \<or> d = 3 \<or> d = 4 \<or> d = 5 \<or> d = 6 \<or> d = 7 \<or> d = 8 \<or> d = 9"
    by arith
  then show ?thesis
    by (elim disjE) (simp_all add: digit_char_def)
qed

lemma decimal_value_snoc: "decimal_value (s @ [c]) = 10 * decimal_value s + (of_char c - 48)"
  by (simp add: decimal_value_def)

text \<open>\<open>itoa_nat\<close> writes the decimal numeral of its argument.\<close>

lemma decimal_value_itoa_nat: "decimal_value (itoa_nat n) = n"
proof (induction n rule: itoa_nat.induct)
  case (1 n)
  show ?case
  proof (cases "n < 10")
    case True
    then show ?thesis
      by (simp add: itoa_nat.simps [of n] decimal_value_def digit_char_value)
  next
    case False
    have "decimal_value (itoa_nat n) = 10 * decimal_value (itoa_nat (n div 10)) + (of_char (digit_char (n mod 10)) - 48)"
      using False by (simp add: itoa_nat.simps [of n] decimal_value_snoc)
    also have "\<dots> = 10 * (n div 10) + n mod 10"
      using "1.IH" [OF False] by (simp add: digit_char_value)
    finally show ?thesis by simp
  qed
qed

lemma Split_length: "length (Split s sep) = Suc (count_list s sep)"
proof -
  have "length (split_from t sep cur) = Suc (count_list t sep)" for t cur
    by (induction t sep cur rule: split_from.induct) auto
  then show ?thesis by (simp add: Split_def)
qed

lemma Split_empty: "Split [] sep = [[]]"
  by (simp add: Split_def)

lemma rx_Compile_usb: "rx_Compile ''^usb$'' = Inr rx_usb"
  by (simp add: rx_Compile_def rx_parse_def rx_meta_def rx_usb_def)

lemma rx_Compile_high: "rx_Compile ''^high$'' = Inr rx_high"
  by (simp add: rx_Compile_def rx_parse_def rx_meta_def rx_high_def)

lemma rx_Compile_full: "rx_Compile ''^full$'' = Inr rx_full"
  by (simp add: rx_Compile_def rx_parse_def rx_meta_def rx_full_def)

text \<open>An anchored literal matches exactly its own text.\<close>

lemma rx_usb_matches: "rx_MatchString rx_usb s = (s = ''usb'')"
proof -
  have "rx_search rx_usb False t = False" for t
    by (induction t) (simp_all add: rx_usb_def)
  moreover have "rx_here rx_usb True s = (s = ''usb'')"
    by (auto simp: rx_usb_def elim!: rx_here.elims)
  ultimately show ?thesis
    by (cases s) (simp_all add: rx_MatchString_def)
qed

lemma isEmailish_rx:
  "rx_MustCompile isEmailish_pattern
     = Some [One Dot, One (Lit CHR ''@''), Many Dot, One (Lit CHR ''.''), One Dot]"
  by (simp add: rx_MustCompile_def rx_Compile_def rx_parse_def isEmailish_pattern_def rx_meta_def)

text \<open>Searching is matching at some position; only the first position is the beginning
  of the text.\<close>

lemma rx_search_iff:
  "rx_search p b s = (\<exists>a t. s = a @ t \<and> rx_here p (b \<and> a = []) t)"
proof (induction s arbitrary: b)
  case Nil
  then show ?case by simp
next
  case (Cons x xs)
  show ?case
  proof
    assume "rx_search p b (x # xs)"
    then consider "rx_here p b (x # xs)" | "rx_search p False xs" by auto
    then show "\<exists>a t. x # xs = a @ t \<and> rx_here p (b \<and> a = []) t"
    proof cases
      case 1
      then have "x # xs = [] @ (x # xs) \<and> rx_here p (b \<and> [] = ([]::string)) (x # xs)" by simp
      then show ?thesis by blast
    next
      case 2
      then obtain a t where "xs = a @ t" "rx_here p False t"
        using Cons.IH[of False] by auto
      then have "x # xs = (x # a) @ t \<and> rx_here p (b \<and> x # a = []) t" by simp
      then show ?thesis by blast
    qed
  next
    assume "\<exists>a t. x # xs = a @ t \<and> rx_here p (b \<and> a = []) t"
    then obtain a t where h: "x # xs = a @ t" "rx_here p (b \<and> a = []) t" by blast
    show "rx_search p b (x # xs)"
    proof (cases a)
      case Nil
      with h have "rx_here p b (x # xs)" by simp
      then show ?thesis by simp
    next
      case (Cons y a')
      with h have "xs = a' @ t" "rx_here p (False \<and> a' = []) t" by auto
      then have "rx_search p False xs" using Cons.IH[of False] by blast
      then show ?thesis by simp
    qed
  qed
qed

lemma rx_here_domain:
  "rx_here [Many Dot, One (Lit CHR ''.''), One Dot] b s
     = (\<exists>m e z. s = m @ CHR ''.'' # e # z \<and> CHR 0x0A \<notin> set m \<and> e \<noteq> CHR 0x0A)"
proof (induction s arbitrary: b)
  case Nil
  then show ?case by simp
next
  case (Cons x xs)
  have tail: "rx_here [One (Lit CHR ''.''), One Dot] b (x # xs)
      = (\<exists>e z. x # xs = CHR ''.'' # e # z \<and> e \<noteq> CHR 0x0A)" for b
    by (cases xs) auto
  show ?case
  proof
    assume "rx_here [Many Dot, One (Lit CHR ''.''), One Dot] b (x # xs)"
    then consider "rx_here [One (Lit CHR ''.''), One Dot] b (x # xs)"
      | "x \<noteq> CHR 0x0A" "rx_here [Many Dot, One (Lit CHR ''.''), One Dot] False xs"
      by auto
    then show "\<exists>m e z. x # xs = m @ CHR ''.'' # e # z \<and> CHR 0x0A \<notin> set m \<and> e \<noteq> CHR 0x0A"
    proof cases
      case 1
      then obtain e z where "x # xs = [] @ CHR ''.'' # e # z" "e \<noteq> CHR 0x0A"
        unfolding tail by auto
      then show ?thesis by (metis empty_iff empty_set)
    next
      case 2
      then obtain m e z where "xs = m @ CHR ''.'' # e # z" "CHR 0x0A \<notin> set m" "e \<noteq> CHR 0x0A"
        using Cons.IH[of False] by auto
      with 2(1) have "x # xs = (x # m) @ CHR ''.'' # e # z \<and> CHR 0x0A \<notin> set (x # m) \<and> e \<noteq> CHR 0x0A"
        by auto
      then show ?thesis by blast
    qed
  next
    assume "\<exists>m e z. x # xs = m @ CHR ''.'' # e # z \<and> CHR 0x0A \<notin> set m \<and> e \<noteq> CHR 0x0A"
    then obtain m e z where h: "x # xs = m @ CHR ''.'' # e # z" "CHR 0x0A \<notin> set m" "e \<noteq> CHR 0x0A"
      by blast
    show "rx_here [Many Dot, One (Lit CHR ''.''), One Dot] b (x # xs)"
    proof (cases m)
      case Nil
      with h have "rx_here [One (Lit CHR ''.''), One Dot] b (x # xs)"
        unfolding tail by auto
      then show ?thesis by simp
    next
      case (Cons y m')
      with h have "x = y" "xs = m' @ CHR ''.'' # e # z" "CHR 0x0A \<notin> set m'" "x \<noteq> CHR 0x0A"
        by auto
      then have "rx_here [Many Dot, One (Lit CHR ''.''), One Dot] False xs"
        using Cons.IH[of False] h(3) by blast
      with \<open>x \<noteq> CHR 0x0A\<close> show ?thesis by simp
    qed
  qed
qed

lemma rx_here_emailish:
  "rx_here [One Dot, One (Lit CHR ''@''), Many Dot, One (Lit CHR ''.''), One Dot] b s
     = (\<exists>c m e z. s = c # CHR ''@'' # m @ CHR ''.'' # e # z
          \<and> c \<noteq> CHR 0x0A \<and> CHR 0x0A \<notin> set m \<and> e \<noteq> CHR 0x0A)"
proof (cases s)
  case Nil
  then show ?thesis by simp
next
  case (Cons c s')
  show ?thesis
  proof (cases s')
    case Nil
    with Cons show ?thesis by simp
  next
    case (Cons a s'')
    with \<open>s = c # s'\<close> show ?thesis
      by (auto simp: rx_here_domain)
  qed
qed

text \<open>The email-like pattern: somewhere in the name, a character, then an at sign, then
  a dot with a character after it, none of them a newline and no newline between the at
  sign and the dot.\<close>

lemma isEmailish_iff:
  "isEmailish s = (\<exists>a c m e z. s = a @ c # CHR ''@'' # m @ CHR ''.'' # e # z
          \<and> c \<noteq> CHR 0x0A \<and> CHR 0x0A \<notin> set m \<and> e \<noteq> CHR 0x0A)"
  unfolding isEmailish_def isEmailish_rx rx_MatchString_def option.case rx_search_iff rx_here_emailish
  by blast

lemma not_isEmailish_without_at: "CHR ''@'' \<notin> set s \<Longrightarrow> \<not> isEmailish s"
  by (auto simp: isEmailish_iff)

section \<open>Attribute constraints\<close>

text \<open>Claim C1. For the compiled attribute constraints
  \<^verbatim>\<open>{"bus":"usb","speed":["high","full"]}\<close>, \<open>Check\<close> applied to the input map
  \<^verbatim>\<open>{"bus":"usb","speed":"full"}\<close> succeeds (returns no error), and \<open>Check\<close> applied to
  \<^verbatim>\<open>{"bus":"pci","speed":"full"}\<close> fails with an error whose diagnostic names the dotted
  path \<^verbatim>\<open>bus\<close>. The constraints compile, in either order of the two keys, and the result
  of \<open>Check\<close> is the same in both orders: no error for the first input, and for the second
  the error that attribute \<^verbatim>\<open>bus\<close> with value \<^verbatim>\<open>pci\<close> does not match.\<close>

theorem Check_usb_scenario:
  "compileAttributeConstraints rx_Compile
      (CMap [(''bus'', CString ''usb''), (''speed'', CList [CString ''high'', CString ''full''])])
     = Inr (AttributeConstraints (MapAttrMatcher
         [(''bus'', RegexpAttrMatcher rx_usb),
          (''speed'', AltAttrMatcher [RegexpAttrMatcher rx_high, RegexpAttrMatcher rx_full])]))
   \<and> compileAttributeConstraints rx_Compile
      (CMap [(''speed'', CList [CString ''high'', CString ''full'']), (''bus'', CString ''usb'')])
     = Inr (AttributeConstraints (MapAttrMatcher
         [(''speed'', AltAttrMatcher [RegexpAttrMatcher rx_high, RegexpAttrMatcher rx_full]),
          (''bus'', RegexpAttrMatcher rx_usb)]))
   \<and> Check rx_MatchString (AttributeConstraints (MapAttrMatcher
         [(''bus'', RegexpAttrMatcher rx_usb),
          (''speed'', AltAttrMatcher [RegexpAttrMatcher rx_high, RegexpAttrMatcher rx_full])]))
       [(''bus'', VString ''usb''), (''speed'', VString ''full'')] = None
   \<and> Check rx_MatchString (AttributeConstraints (MapAttrMatcher
         [(''speed'', AltAttrMatcher [RegexpAttrMatcher rx_high, RegexpAttrMatcher rx_full]),
          (''bus'', RegexpAttrMatcher rx_usb)]))
       [(''bus'', VString ''usb''), (''speed'', VString ''full'')] = None
   \<and> Check rx_MatchString (AttributeConstraints (MapAttrMatcher
         [(''bus'', RegexpAttrMatcher rx_usb),
          (''speed'', AltAttrMatcher [RegexpAttrMatcher rx_high, RegexpAttrMatcher rx_full])]))
       [(''bus'', VString ''pci''), (''speed'', VString ''full'')]
     = Some (ErrNoMatch ''bus'' ''pci'' rx_usb)
   \<and> Check rx_MatchString (AttributeConstraints (MapAttrMatcher
         [(''speed'', AltAttrMatcher [RegexpAttrMatcher rx_high, RegexpAttrMatcher rx_full]),
          (''bus'', RegexpAttrMatcher rx_usb)]))
       [(''bus'', VString ''pci''), (''speed'', VString ''full'')]
     = Some (ErrNoMatch ''bus'' ''pci'' rx_usb)"
proof -
  have compile: "compileAttributeConstraints rx_Compile
      (CMap [(''bus'', CString ''usb''), (''speed'', CList [CString ''high'', CString ''full''])])
     = Inr (AttributeConstraints (MapAttrMatcher
         [(''bus'', RegexpAttrMatcher rx_usb),
          (''speed'', AltAttrMatcher [RegexpAttrMatcher rx_high, RegexpAttrMatcher rx_full])]))"
    by (simp add: compileAttributeConstraints_def keyEntry_def alt_def chain_def
        compileRegexpAttrMatcher_def rx_Compile_usb rx_Compile_high rx_Compile_full)
  have compile': "compileAttributeConstraints rx_Compile
      (CMap [(''speed'', CList [CString ''high'', CString ''full'']), (''bus'', CString ''usb'')])
     = Inr (AttributeConstraints (MapAttrMatcher
         [(''speed'', AltAttrMatcher [RegexpAttrMatcher rx_high, RegexpAttrMatcher rx_full]),
          (''bus'', RegexpAttrMatcher rx_usb)]))"
    by (simp add: compileAttributeConstraints_def keyEntry_def alt_def chain_def
        compileRegexpAttrMatcher_def rx_Compile_usb rx_Compile_high rx_Compile_full)
  have high: "\<not> rx_MatchString rx_high ''full''"
    by (simp add: rx_MatchString_def rx_high_def)
  have full: "rx_MatchString rx_full ''full''"
    by (simp add: rx_MatchString_def rx_full_def)
  have ok: "Check rx_MatchString (AttributeConstraints (MapAttrMatcher
         [(''bus'', RegexpAttrMatcher rx_usb),
          (''speed'', AltAttrMatcher [RegexpAttrMatcher rx_high, RegexpAttrMatcher rx_full])]))
       [(''bus'', VString ''usb''), (''speed'', VString ''full'')] = None"
    by (simp add: Check_def lookupS_def chain_def rx_usb_matches high full)
  have ok': "Check rx_MatchString (AttributeConstraints (MapAttrMatcher
         [(''speed'', AltAttrMatcher [RegexpAttrMatcher rx_high, RegexpAttrMatcher rx_full]),
          (''bus'', RegexpAttrMatcher rx_usb)]))
       [(''bus'', VString ''usb''), (''speed'', VString ''full'')] = None"
    by (simp add: Check_def lookupS_def chain_def rx_usb_matches high full)
  have bad: "Check rx_MatchString (AttributeConstraints (MapAttrMatcher
         [(''bus'', RegexpAttrMatcher rx_usb),
          (''speed'', AltAttrMatcher [RegexpAttrMatcher rx_high, RegexpAttrMatcher rx_full])]))
       [(''bus'', VString ''pci''), (''speed'', VString ''full'')]
     = Some (ErrNoMatch ''bus'' ''pci'' rx_usb)"
    by (simp add: Check_def lookupS_def chain_def rx_usb_matches high full)
  have bad': "Check rx_MatchString (AttributeConstraints (MapAttrMatcher
         [(''speed'', AltAttrMatcher [RegexpAttrMatcher rx_high, RegexpAttrMatcher rx_full]),
          (''bus'', RegexpAttrMatcher rx_usb)]))
       [(''bus'', VString ''pci''), (''speed'', VString ''full'')]
     = Some (ErrNoMatch ''bus'' ''pci'' rx_usb)"
    by (simp add: Check_def lookupS_def chain_def rx_usb_matches high full)
  from compile compile' ok ok' bad bad' show ?thesis by blast
qed

text \<open>An error of compiling comes from one node and stops the whole compilation: the
  three statements go along the three functions of the compiler.\<close>

lemma compile_rejects_nested:
  "wasAlt cc \<and> isAlternatives c \<or> nestedAlternatives c \<longrightarrow> isl (compileAttrMatcher Compile cc c)"
  "(\<exists>c \<in> snd ` set m. nestedAlternatives c) \<longrightarrow> isl (compileMapAttrMatcher Compile cc m)"
  "(\<exists>c \<in> set l. isAlternatives c \<or> nestedAlternatives c) \<longrightarrow> isl (compileAltAttrMatcher Compile cc i l)"
proof (induction Compile cc c and Compile cc m and Compile cc i l
    rule: compileAttrMatcher_compileMapAttrMatcher_compileAltAttrMatcher.induct)
  case (1 Compile cc m)
  then show ?case by (auto split: sum.splits)
next
  case (2 Compile cc l)
  then show ?case by (auto split: sum.splits)
next
  case (6 Compile cc k c m)
  then show ?case by (fastforce split: sum.splits)
next
  case (8 Compile cc i c l)
  then show ?case by (auto simp: alt_def split: sum.splits)
qed simp_all

lemma compile_rejects_first_level:
  "\<not> hadMap cc \<and> firstLevelRegexp c \<longrightarrow> isl (compileAttrMatcher Compile cc c)"
  "isl (compileMapAttrMatcher Compile cc m) \<longrightarrow> m \<noteq> []"
  "\<not> hadMap cc \<and> (\<exists>c \<in> set l. firstLevelRegexp c) \<longrightarrow> isl (compileAltAttrMatcher Compile cc i l)"
proof (induction Compile cc c and Compile cc m and Compile cc i l
    rule: compileAttrMatcher_compileMapAttrMatcher_compileAltAttrMatcher.induct)
  case (2 Compile cc l)
  then show ?case by (auto split: sum.splits)
next
  case (8 Compile cc i c l)
  then show ?case by (auto simp: alt_def split: sum.splits)
qed simp_all

lemma compileAltAttrMatcher_all:
  "(\<forall>j<length l. \<not> isl (compileAttrMatcher Compile (alt cc (i + j)) (l ! j)))
    \<Longrightarrow> \<exists>ms. compileAltAttrMatcher Compile cc i l = Inr ms \<and> length ms = length l"
proof (induction l arbitrary: i)
  case Nil
  then show ?case by simp
next
  case (Cons c l)
  from Cons.prems have "\<not> isl (compileAttrMatcher Compile (alt cc (i + 0)) ((c # l) ! 0))"
    by blast
  then obtain m1 where m1: "compileAttrMatcher Compile (alt cc i) c = Inr m1"
    by (cases "compileAttrMatcher Compile (alt cc i) c") auto
  have "\<forall>j<length l. \<not> isl (compileAttrMatcher Compile (alt cc (Suc i + j)) (l ! j))"
  proof (intro allI impI)
    fix j assume "j < length l"
    then have "Suc j < length (c # l)" by simp
    from Cons.prems[rule_format, OF this]
    show "\<not> isl (compileAttrMatcher Compile (alt cc (Suc i + j)) (l ! j))"
      by simp
  qed
  from Cons.IH[OF this] obtain ms
    where "compileAltAttrMatcher Compile cc (Suc i) l = Inr ms" "length ms = length l"
    by blast
  with m1 show ?case by simp
qed

text \<open>Claim C2. For every constraint tree, compiling attribute constraints fails (returns
  an error and produces no matcher) when a list of alternatives appears directly inside
  another list of alternatives, and also when the first non-alternative level of the tree
  is a bare regexp string rather than a key-value map; a list of alternatives at the very
  top level is accepted: it compiles to an alternatives matcher with one branch for each
  element whenever each element compiles as an alternative.\<close>

theorem compileAttributeConstraints_rejects:
  "(nestedAlternatives c \<longrightarrow> isl (compileAttributeConstraints Compile c))
   \<and> (firstLevelRegexp c \<longrightarrow> isl (compileAttributeConstraints Compile c))
   \<and> ((\<forall>j<length l. \<not> isl (compileAttrMatcher Compile (alt topContext j) (l ! j)))
        \<longrightarrow> (\<exists>ms. compileAttributeConstraints Compile (CList l)
                      = Inr (AttributeConstraints (AltAttrMatcher ms))
                  \<and> length ms = length l))"
proof (intro conjI impI)
  assume "nestedAlternatives c"
  then have "isl (compileAttrMatcher Compile topContext c)"
    using compile_rejects_nested(1)[where cc=topContext and c=c and Compile=Compile] by simp
  then show "isl (compileAttributeConstraints Compile c)"
    by (auto simp: compileAttributeConstraints_def topContext_def split: sum.splits)
next
  assume "firstLevelRegexp c"
  then have "isl (compileAttrMatcher Compile topContext c)"
    using compile_rejects_first_level(1)[where cc=topContext and c=c and Compile=Compile]
    by (simp add: topContext_def)
  then show "isl (compileAttributeConstraints Compile c)"
    by (auto simp: compileAttributeConstraints_def topContext_def split: sum.splits)
next
  assume "\<forall>j<length l. \<not> isl (compileAttrMatcher Compile (alt topContext j) (l ! j))"
  then have "\<exists>ms. compileAltAttrMatcher Compile topContext 0 l = Inr ms \<and> length ms = length l"
    using compileAltAttrMatcher_all[where l=l and Compile=Compile and cc=topContext and i=0] by simp
  then show "\<exists>ms. compileAttributeConstraints Compile (CList l)
                      = Inr (AttributeConstraints (AltAttrMatcher ms)) \<and> length ms = length l"
    by (auto simp: compileAttributeConstraints_def topContext_def)
qed

theorem compileAttributeConstraints_rejects_witness:
  "nestedAlternatives (CList [CMap [(''a'', CList [CList [CString ''usb'']])]])
   \<and> isl (compileAttributeConstraints rx_Compile (CList [CMap [(''a'', CList [CList [CString ''usb'']])]]))
   \<and> firstLevelRegexp (CList [CString ''usb''])
   \<and> isl (compileAttributeConstraints rx_Compile (CList [CString ''usb'']))
   \<and> (\<exists>ms. compileAttributeConstraints rx_Compile (CList [CMap [(''bus'', CString ''usb'')]])
              = Inr (AttributeConstraints (AltAttrMatcher ms)) \<and> length ms = 1)"
proof -
  have n: "nestedAlternatives (CList [CMap [(''a'', CList [CList [CString ''usb'']])]])"
    by simp
  have f: "firstLevelRegexp (CList [CString ''usb''])"
    by simp
  have a: "\<forall>j<length [CMap [(''bus'', CString ''usb'')]].
      \<not> isl (compileAttrMatcher rx_Compile (alt topContext j) ([CMap [(''bus'', CString ''usb'')]] ! j))"
    by (simp add: keyEntry_def compileRegexpAttrMatcher_def rx_Compile_usb)
  show ?thesis
    using n f a
      compileAttributeConstraints_rejects
        [where c="CList [CMap [(''a'', CList [CList [CString ''usb'']])]]" and Compile=rx_Compile
           and l="[CMap [(''bus'', CString ''usb'')]]"]
      compileAttributeConstraints_rejects
        [where c="CList [CString ''usb'']" and Compile=rx_Compile and l="[]"]
    by simp
qed

lemma matchList_None_iff:
  "(matchList MS ctx m i l = None)
     = (\<forall>j<length l. match MS m (chain ctx (Itoa (int (i + j)))) (l ! j) = None)"
proof (induction l arbitrary: i)
  case Nil
  then show ?case by simp
next
  case (Cons e l)
  have split: "(\<forall>j<length (e # l). match MS m (chain ctx (Itoa (int (i + j)))) ((e # l) ! j) = None)
      = (match MS m (chain ctx (Itoa (int i))) e = None
         \<and> (\<forall>j<length l. match MS m (chain ctx (Itoa (int (Suc i + j)))) (l ! j) = None))"
    by (simp add: All_less_Suc2 algebra_simps)
  show ?case
    unfolding split using Cons.IH[of "Suc i"]
    by (cases "match MS m (chain ctx (Itoa (int i))) e") simp_all
qed

text \<open>Claim C3. For every regexp-leaf constraint string \<open>s\<close>, the compiled leaf matcher
  accepts a value \<open>v\<close> iff the anchored pattern \<^verbatim>\<open>^s$\<close> matches the string form of \<open>v\<close>,
  where a string is taken verbatim, a boolean is rendered as \<^verbatim>\<open>true\<close> or \<^verbatim>\<open>false\<close>, and
  an integer is rendered in decimal; a list value is accepted iff the leaf matcher accepts
  every element of the list (element \<open>j\<close> under the path extended with \<open>j\<close>), and any other
  value kind (nil, a map of either kind, any other type) is an error. The regexp package
  is a parameter: \<open>Compile\<close> and \<open>MS\<close> are any compile and match functions.\<close>

theorem regexpAttrMatcher_match_iff:
  assumes "compileRegexpAttrMatcher Compile cc s = Inr m"
  shows "\<exists>rx. Compile (''^'' @ s @ ''$'') = Inr rx \<and> m = RegexpAttrMatcher rx
     \<and> (\<forall>ctx x. (match MS m ctx (VString x) = None) = MS rx x)
     \<and> (\<forall>ctx b. (match MS m ctx (VBool b) = None) = MS rx (if b then ''true'' else ''false''))
     \<and> (\<forall>ctx i. (match MS m ctx (VInt i) = None) = MS rx (Itoa i))
     \<and> (\<forall>ctx l. (match MS m ctx (VList l) = None)
            = (\<forall>j<length l. match MS m (chain ctx (Itoa (int j))) (l ! j) = None))
     \<and> (\<forall>ctx x. match MS m ctx VNil = Some (ErrMustBeScalarOrList ctx)
            \<and> match MS m ctx (VMapS x) = Some (ErrMustBeScalarOrList ctx)
            \<and> match MS m ctx VOther = Some (ErrMustBeScalarOrList ctx))
     \<and> (\<forall>ctx x. match MS m ctx (VMapI x) = Some (ErrMustBeScalarOrList ctx))"
proof -
  from assms obtain rx where rx: "Compile (''^'' @ s @ ''$'') = Inr rx" "m = RegexpAttrMatcher rx"
    by (auto simp: compileRegexpAttrMatcher_def split: sum.splits)
  have "(match MS (RegexpAttrMatcher rx) ctx (VList l) = None)
      = (\<forall>j<length l. match MS (RegexpAttrMatcher rx) (chain ctx (Itoa (int j))) (l ! j) = None)"
    for ctx l
    using matchList_None_iff[of MS ctx "RegexpAttrMatcher rx" 0 l] by simp
  with rx show ?thesis by (simp add: FormatBool_def)
qed

theorem regexpAttrMatcher_match_iff_witness:
  "compileRegexpAttrMatcher rx_Compile (keyEntry topContext ''bus'') ''usb'' = Inr (RegexpAttrMatcher rx_usb)
   \<and> match rx_MatchString (RegexpAttrMatcher rx_usb) ''bus'' (VString ''usb'') = None
   \<and> match rx_MatchString (RegexpAttrMatcher rx_usb) ''bus'' (VBool True) \<noteq> None
   \<and> match rx_MatchString (RegexpAttrMatcher rx_usb) ''bus'' (VInt 42) \<noteq> None
   \<and> match rx_MatchString (RegexpAttrMatcher rx_usb) ''bus'' (VList [VString ''usb'', VString ''usb'']) = None
   \<and> match rx_MatchString (RegexpAttrMatcher rx_usb) ''bus'' VNil = Some (ErrMustBeScalarOrList ''bus'')"
proof -
  have h: "compileRegexpAttrMatcher rx_Compile (keyEntry topContext ''bus'') ''usb''
      = Inr (RegexpAttrMatcher rx_usb)"
    by (simp add: compileRegexpAttrMatcher_def rx_Compile_usb)
  have i: "Itoa 42 \<noteq> ''usb''"
    by (simp add: Itoa_def itoa_nat.simps digit_char_def)
  show ?thesis
    using h i regexpAttrMatcher_match_iff [OF h, of rx_MatchString]
    by (simp add: rx_Compile_usb rx_usb_matches All_less_Suc FormatBool_def)
qed

section \<open>Device assertions\<close>

text \<open>Claim C7. Assembling a serial assertion fails whenever the device-key-sha3-384 header
  differs from the fingerprint self-computed from the decoded device-key header, and
  assembling a serial-request assertion fails whenever the decoded device key's fingerprint
  differs from the assertion's signing key id; in both failure cases no assertion value is
  produced (the result is an error). Conversely an assembled serial carries the key decoded
  from its device-key header and a device-key-sha3-384 header equal to that key's
  fingerprint, and an assembled serial-request carries a key whose fingerprint is the
  signing key id.\<close>

theorem assemble_key_agreement:
  "(headers a ''device-key'' = Some (HString ek) \<and> DecodePublicKey P ek = Inr pk
      \<and> headers a ''device-key-sha3-384'' \<noteq> Some (HString (ID P pk))
      \<longrightarrow> isl (assembleSerial P a))
   \<and> (headers a ''device-key'' = Some (HString ek) \<and> DecodePublicKey P ek = Inr pk
      \<and> ID P pk \<noteq> SignKeyID P a
      \<longrightarrow> isl (assembleSerialRequest P a))
   \<and> (assembleSerial P a = Inr s \<longrightarrow>
        (\<exists>ek'. headers a ''device-key'' = Some (HString ek')
            \<and> DecodePublicKey P ek' = Inr (serial_pubKey s)
            \<and> headers a ''device-key-sha3-384'' = Some (HString (ID P (serial_pubKey s)))))
   \<and> (assembleSerialRequest P a = Inr r \<longrightarrow>
        (\<exists>ek'. headers a ''device-key'' = Some (HString ek')
            \<and> DecodePublicKey P ek' = Inr (sreq_pubKey r)
            \<and> ID P (sreq_pubKey r) = SignKeyID P a))"
proof (intro conjI impI)
  assume "headers a ''device-key'' = Some (HString ek) \<and> DecodePublicKey P ek = Inr pk
      \<and> headers a ''device-key-sha3-384'' \<noteq> Some (HString (ID P pk))"
  then show "isl (assembleSerial P a)"
    by (auto simp: assembleSerial_def checkNotEmptyString_def
        split: sum.splits option.splits header_value.splits if_splits)
next
  assume "headers a ''device-key'' = Some (HString ek) \<and> DecodePublicKey P ek = Inr pk
      \<and> ID P pk \<noteq> SignKeyID P a"
  then show "isl (assembleSerialRequest P a)"
    by (auto simp: assembleSerialRequest_def checkNotEmptyString_def
        split: sum.splits option.splits header_value.splits if_splits)
next
  assume "assembleSerial P a = Inr s"
  then show "\<exists>ek'. headers a ''device-key'' = Some (HString ek')
            \<and> DecodePublicKey P ek' = Inr (serial_pubKey s)
            \<and> headers a ''device-key-sha3-384'' = Some (HString (ID P (serial_pubKey s)))"
    by (auto simp: assembleSerial_def checkNotEmptyString_def
        split: sum.splits option.splits header_value.splits if_splits)
next
  assume "assembleSerialRequest P a = Inr r"
  then show "\<exists>ek'. headers a ''device-key'' = Some (HString ek')
            \<and> DecodePublicKey P ek' = Inr (sreq_pubKey r)
            \<and> ID P (sreq_pubKey r) = SignKeyID P a"
    by (auto simp: assembleSerialRequest_def checkNotEmptyString_def
        split: sum.splits option.splits header_value.splits if_splits)
qed

theorem assemble_key_agreement_witness:
  "assembleSerial example_pkg example_serial
     = Inr \<lparr>serial_base = example_serial, serial_timestamp = ''2016-08-24T21:55:00Z'',
            serial_pubKey = ''KEY''\<rparr>
   \<and> headers example_serial ''device-key-sha3-384'' = Some (HString (ID example_pkg ''KEY''))
   \<and> assembleSerialRequest example_pkg example_serial_request
     = Inr \<lparr>sreq_base = example_serial_request, sreq_pubKey = ''KEY''\<rparr>
   \<and> ID example_pkg ''KEY'' = SignKeyID example_pkg example_serial_request
   \<and> isl (assembleSerial example_pkg
            (example_serial\<lparr>headers := (headers example_serial)(''device-key-sha3-384'' \<mapsto> HString ''id-OTHER'')\<rparr>))
   \<and> isl (assembleSerialRequest example_pkg
            (example_serial_request\<lparr>headers := (headers example_serial_request)(''sign-key-sha3-384'' \<mapsto> HString ''id-OTHER'')\<rparr>))"
proof -
  let ?bad = "example_serial\<lparr>headers := (headers example_serial)(''device-key-sha3-384'' \<mapsto> HString ''id-OTHER'')\<rparr>"
  let ?badreq = "example_serial_request\<lparr>headers := (headers example_serial_request)(''sign-key-sha3-384'' \<mapsto> HString ''id-OTHER'')\<rparr>"
  have s: "assembleSerial example_pkg example_serial
     = Inr \<lparr>serial_base = example_serial, serial_timestamp = ''2016-08-24T21:55:00Z'',
            serial_pubKey = ''KEY''\<rparr>"
    by (simp add: assembleSerial_def example_pkg_def example_serial_def checkAuthorityMatchesBrand_def
        HeaderString_def checkNotEmptyString_def)
  have r: "assembleSerialRequest example_pkg example_serial_request
     = Inr \<lparr>sreq_base = example_serial_request, sreq_pubKey = ''KEY''\<rparr>"
    by (simp add: assembleSerialRequest_def example_pkg_def example_serial_request_def
        HeaderString_def checkNotEmptyString_def checkOptionalString_def)
  have b: "headers ?bad ''device-key'' = Some (HString ''KEY'')
      \<and> DecodePublicKey example_pkg ''KEY'' = Inr ''KEY''
      \<and> headers ?bad ''device-key-sha3-384'' \<noteq> Some (HString (ID example_pkg ''KEY''))"
    by (simp add: example_pkg_def example_serial_def)
  have br: "headers ?badreq ''device-key'' = Some (HString ''KEY'')
      \<and> DecodePublicKey example_pkg ''KEY'' = Inr ''KEY''
      \<and> ID example_pkg ''KEY'' \<noteq> SignKeyID example_pkg ?badreq"
    by (simp add: example_pkg_def example_serial_request_def HeaderString_def)
  from s assemble_key_agreement [where a=example_serial and P=example_pkg
      and ek="''KEY''" and pk="''KEY''"
      and r="\<lparr>sreq_base = example_serial_request, sreq_pubKey = ''KEY''\<rparr>"
      and s="\<lparr>serial_base = example_serial, serial_timestamp = ''2016-08-24T21:55:00Z'', serial_pubKey = ''KEY''\<rparr>"]
  have "\<exists>ek'. headers example_serial ''device-key'' = Some (HString ek')
            \<and> DecodePublicKey example_pkg ek' = Inr (serial_pubKey \<lparr>serial_base = example_serial, serial_timestamp = ''2016-08-24T21:55:00Z'', serial_pubKey = ''KEY''\<rparr>)
            \<and> headers example_serial ''device-key-sha3-384''
                = Some (HString (ID example_pkg (serial_pubKey \<lparr>serial_base = example_serial, serial_timestamp = ''2016-08-24T21:55:00Z'', serial_pubKey = ''KEY''\<rparr>)))"
    by blast
  then have s': "headers example_serial ''device-key-sha3-384'' = Some (HString (ID example_pkg ''KEY''))"
    by auto
  from r assemble_key_agreement [where a=example_serial_request and P=example_pkg
      and ek="''KEY''" and pk="''KEY''"
      and s="\<lparr>serial_base = example_serial, serial_timestamp = ''2016-08-24T21:55:00Z'', serial_pubKey = ''KEY''\<rparr>"
      and r="\<lparr>sreq_base = example_serial_request, sreq_pubKey = ''KEY''\<rparr>"]
  have "\<exists>ek'. headers example_serial_request ''device-key'' = Some (HString ek')
            \<and> DecodePublicKey example_pkg ek' = Inr (sreq_pubKey \<lparr>sreq_base = example_serial_request, sreq_pubKey = ''KEY''\<rparr>)
            \<and> ID example_pkg (sreq_pubKey \<lparr>sreq_base = example_serial_request, sreq_pubKey = ''KEY''\<rparr>)
                = SignKeyID example_pkg example_serial_request"
    by blast
  then have r': "ID example_pkg ''KEY'' = SignKeyID example_pkg example_serial_request"
    by auto
  from b assemble_key_agreement [where a="?bad" and P=example_pkg and ek="''KEY''" and pk="''KEY''"
      and s="\<lparr>serial_base = example_serial, serial_timestamp = ''2016-08-24T21:55:00Z'', serial_pubKey = ''KEY''\<rparr>"
      and r="\<lparr>sreq_base = example_serial_request, sreq_pubKey = ''KEY''\<rparr>"]
  have b': "isl (assembleSerial example_pkg ?bad)"
    by blast
  from br assemble_key_agreement [where a="?badreq" and P=example_pkg and ek="''KEY''" and pk="''KEY''"
      and s="\<lparr>serial_base = example_serial, serial_timestamp = ''2016-08-24T21:55:00Z'', serial_pubKey = ''KEY''\<rparr>"
      and r="\<lparr>sreq_base = example_serial_request, sreq_pubKey = ''KEY''\<rparr>"]
  have br': "isl (assembleSerialRequest example_pkg ?badreq)"
    by blast
  from s s' r r' b' br' show ?thesis by blast
qed

section \<open>The API of the daemon\<close>

lemma postSnap_flags_error:
  assumes "routerGet d stateChangeCmd_Path"
    and "Action inst = ''install'' \<or> Action inst = ''refresh'' \<or> Action inst = ''revert''"
    and "modeFlags d (DevMode inst) (JailMode inst) = Inl err"
  shows "postSnap d name (Inr inst) user w =
     (Returns (BadRequest (''cannot '' @ Action inst @ '' '' @ fmt_q d name @ '': '' @ Error err)),
       w @ [StateLock, StateUnlock])"
  using assms
  by (auto simp add: postSnap_def dispatch_def snapInstructionDispTable_def
      snapInstall_def snapUpdate_def snapRevert_def)

text \<open>Claim C4, as amended. For every single-snap POST on \<^verbatim>\<open>/v2/snaps/{name}\<close> that
  reaches the decoding of its body (the change route is registered), whose decoded action
  is install, refresh or revert (the actions that compute mode flags) and whose body sets
  jailmode: on a platform that does not force devmode, if the body also sets devmode the
  daemon responds with a 400 error whose message contains "devmode and jailmode"; on a
  platform flagged force-devmode the request is refused with a 400 error saying that the
  system cannot honour the jailmode flag, whether or not devmode is set. In both cases the
  state is only locked and unlocked: no call to snapstate is made and no change is
  created.\<close>

theorem postSnap_mode_conflict:
  assumes "routerGet d stateChangeCmd_Path"
    and "Action inst = ''install'' \<or> Action inst = ''refresh'' \<or> Action inst = ''revert''"
    and "JailMode inst"
    and "DevMode inst \<or> ForceDevMode d"
  shows "\<exists>msg. postSnap d name (Inr inst) user w
            = (Returns (BadRequest msg), w @ [StateLock, StateUnlock])
         \<and> Type (BadRequest msg :: unit resp) = ResponseTypeError
         \<and> Status (BadRequest msg :: unit resp) = 400
         \<and> msg = ''cannot '' @ Action inst @ '' '' @ fmt_q d name @ '': ''
                 @ (if ForceDevMode d then ''this system cannot honour the jailmode flag''
                    else ''cannot use devmode and jailmode flags together'')
         \<and> (\<not> ForceDevMode d \<longrightarrow> sublist ''devmode and jailmode'' msg)"
proof -
  let ?err = "if ForceDevMode d then errNoJailMode else errModeConflict"
  let ?msg = "''cannot '' @ Action inst @ '' '' @ fmt_q d name @ '': '' @ Error ?err"
  have mf: "modeFlags d (DevMode inst) (JailMode inst) = Inl ?err"
    using assms(3,4) by (auto simp: modeFlags_def Let_def)
  have p: "postSnap d name (Inr inst) user w = (Returns (BadRequest ?msg), w @ [StateLock, StateUnlock])"
    using postSnap_flags_error[OF assms(1,2) mf] .
  have c: "sublist ''devmode and jailmode'' ?msg" if "\<not> ForceDevMode d"
  proof -
    have "?msg = (''cannot '' @ Action inst @ '' '' @ fmt_q d name @ '': cannot use '')
                  @ ''devmode and jailmode'' @ '' flags together''"
      using that by simp
    then show ?thesis unfolding sublist_def by blast
  qed
  have s: "Status (BadRequest ?msg :: unit resp) = 400"
    and t: "Type (BadRequest ?msg :: unit resp) = ResponseTypeError"
    by (simp_all add: BadRequest_def ErrorResponse_def)
  have m: "?msg = ''cannot '' @ Action inst @ '' '' @ fmt_q d name @ '': ''
                 @ (if ForceDevMode d then ''this system cannot honour the jailmode flag''
                    else ''cannot use devmode and jailmode flags together'')"
    by simp
  from p s t m c show ?thesis by blast
qed

theorem postSnap_mode_conflict_witness:
  "routerGet example_daemon stateChangeCmd_Path
   \<and> Action example_instruction = ''install''
   \<and> JailMode example_instruction \<and> DevMode example_instruction
   \<and> postSnap example_daemon ''foo'' (Inr example_instruction) None []
       = (Returns (BadRequest (''cannot install '' @ [CHR 0x22] @ ''foo'' @ [CHR 0x22]
                                @ '': cannot use devmode and jailmode flags together'')),
          [StateLock, StateUnlock])"
proof -
  have h1: "routerGet example_daemon stateChangeCmd_Path"
    by (simp add: example_daemon_def)
  have h2: "Action example_instruction = ''install'' \<or> Action example_instruction = ''refresh''
      \<or> Action example_instruction = ''revert''"
    by (simp add: example_instruction_def)
  have h3: "JailMode example_instruction"
    by (simp add: example_instruction_def)
  have h4: "DevMode example_instruction \<or> ForceDevMode example_daemon"
    by (simp add: example_instruction_def)
  from postSnap_mode_conflict [OF h1 h2 h3 h4, of "''foo''" None "[]"]
  have "postSnap example_daemon ''foo'' (Inr example_instruction) None []
       = (Returns (BadRequest (''cannot install '' @ [CHR 0x22] @ ''foo'' @ [CHR 0x22]
                                @ '': cannot use devmode and jailmode flags together'')),
          [StateLock, StateUnlock])"
    by (auto simp: example_daemon_def example_instruction_def)
  with h1 h3 show ?thesis by (simp add: example_instruction_def)
qed

text \<open>Claim C4 as stated fails. With devmode and jailmode both set, the action remove
  is carried out: the response is asynchronous with status 202 and a change is created.
  On a platform that forces devmode, install with both flags is refused with a message
  that does not contain "devmode and jailmode".\<close>

theorem postSnap_mode_conflict_counterexample:
  "postSnap example_daemon ''foo'' (Inr (example_instruction\<lparr>Action := ''remove''\<rparr>)) None []
     = (Returns (AsyncResponse ''1''),
        [StateLock, SnapstateRemove ''foo'' (R 0),
         StateNewChange ''remove-snap'' (''Remove '' @ [CHR 0x22] @ ''foo'' @ [CHR 0x22] @ '' snap''),
         ChangeAddAll ''1'' (TaskSet 1), ChangeSetSnapNames ''1'' [''foo''],
         EnsureBefore0, StateUnlock])
   \<and> Status (AsyncResponse ''1'' :: unit resp) = 202
   \<and> postSnap (example_daemon\<lparr>ForceDevMode := True\<rparr>) ''foo'' (Inr example_instruction) None []
     = (Returns (BadRequest (''cannot install '' @ [CHR 0x22] @ ''foo'' @ [CHR 0x22]
                              @ '': this system cannot honour the jailmode flag'')),
        [StateLock, StateUnlock])
   \<and> \<not> sublist ''devmode and jailmode''
         (''cannot install '' @ [CHR 0x22] @ ''foo'' @ [CHR 0x22]
            @ '': this system cannot honour the jailmode flag'')"
proof -
  have a: "postSnap example_daemon ''foo'' (Inr (example_instruction\<lparr>Action := ''remove''\<rparr>)) None []
     = (Returns (AsyncResponse ''1''),
        [StateLock, SnapstateRemove ''foo'' (R 0),
         StateNewChange ''remove-snap'' (''Remove '' @ [CHR 0x22] @ ''foo'' @ [CHR 0x22] @ '' snap''),
         ChangeAddAll ''1'' (TaskSet 1), ChangeSetSnapNames ''1'' [''foo''],
         EnsureBefore0, StateUnlock])"
    by (simp add: postSnap_def example_daemon_def example_instruction_def dispatch_def
        snapInstructionDispTable_def snapRemove_def callTaskSet_def newChange_def
        stateChangeCmd_Path_def Let_def)
  have b: "Status (AsyncResponse ''1'' :: unit resp) = 202"
    by (simp add: AsyncResponse_def)
  have c: "postSnap (example_daemon\<lparr>ForceDevMode := True\<rparr>) ''foo'' (Inr example_instruction) None []
     = (Returns (BadRequest (''cannot install '' @ [CHR 0x22] @ ''foo'' @ [CHR 0x22]
                              @ '': this system cannot honour the jailmode flag'')),
        [StateLock, StateUnlock])"
    by (simp add: postSnap_def example_daemon_def example_instruction_def dispatch_def
        snapInstructionDispTable_def snapInstall_def modeFlags_def stateChangeCmd_Path_def Let_def)
  have d: "\<not> sublist ''devmode and jailmode''
         (''cannot install '' @ [CHR 0x22] @ ''foo'' @ [CHR 0x22]
            @ '': this system cannot honour the jailmode flag'')"
    by (simp add: sublist_Cons_right)
  from a b c d show ?thesis by blast
qed

text \<open>Claim C5. For every multi-snap JSON POST on \<^verbatim>\<open>/v2/snaps\<close> that reaches the decoding
  of its body (the change route is registered), if the decoded instruction sets a non-empty
  channel, a set revision, devmode, or jailmode, the request is rejected with a 400
  "unsupported option provided for multi-snap operation" error before the state is locked
  and before any task-set is built: the history of calls is unchanged.\<close>

theorem snapsOp_rejects_options:
  assumes "routerGet d stateChangeCmd_Path"
    and "Channel inst \<noteq> [] \<or> \<not> Unset (Revision inst) \<or> DevMode inst \<or> JailMode inst"
  shows "snapsOp d (Inr inst) user w
           = (BadRequest ''unsupported option provided for multi-snap operation'', w)
         \<and> Status (fst (snapsOp d (Inr inst) user w)) = 400
         \<and> Type (fst (snapsOp d (Inr inst) user w)) = ResponseTypeError"
  using assms by (auto simp add: snapsOp_def BadRequest_def ErrorResponse_def)

theorem snapsOp_rejects_options_witness:
  "routerGet example_daemon stateChangeCmd_Path
   \<and> \<not> Unset (Revision (example_instruction\<lparr>Revision := R 7, DevMode := False, JailMode := False\<rparr>))
   \<and> snapsOp example_daemon
        (Inr (example_instruction\<lparr>Revision := R 7, DevMode := False, JailMode := False\<rparr>)) None []
       = (BadRequest ''unsupported option provided for multi-snap operation'', [])"
proof -
  let ?inst = "example_instruction\<lparr>Revision := R 7, DevMode := False, JailMode := False\<rparr>"
  have h1: "routerGet example_daemon stateChangeCmd_Path"
    by (simp add: example_daemon_def)
  have h2: "\<not> Unset (Revision ?inst)"
    by simp
  then have h2': "Channel ?inst \<noteq> [] \<or> \<not> Unset (Revision ?inst) \<or> DevMode ?inst \<or> JailMode ?inst"
    by blast
  from h1 h2 snapsOp_rejects_options [OF h1 h2', of None "[]"] show ?thesis
    by blast
qed

text \<open>Claim C6. For every POST on \<^verbatim>\<open>/v2/login\<close> whose username does not match the
  email-like pattern (some character, then an at sign, then a domain containing a dot), for
  example \<^verbatim>\<open>noat.example\<close>, the daemon responds with HTTP status 400 and an error result
  of kind \<^verbatim>\<open>invalid-auth-data\<close>, without calling the store login or creating a user
  record in the state: the history of calls is unchanged.\<close>

theorem loginUser_rejects_non_email:
  assumes "\<not> isEmailish (Username loginData)"
  shows "loginUser d (Inr loginData) w =
     (\<lparr>Type = ResponseTypeError, Status = 400,
       Result = ResultError \<lparr>Message = ''please use a valid email address.'',
                            Kind = ''invalid-auth-data'',
                            Value = [(''email'', [''invalid''])]\<rparr>,
       Change = None\<rparr>, w)"
  using assms by (simp add: loginUser_def SyncResponse_resp_def errorKindInvalidAuthData_def)

theorem loginUser_rejects_non_email_witness:
  "\<not> isEmailish ''noat.example''
   \<and> loginUser example_daemon (Inr \<lparr>Username = ''noat.example'', Password = ''x'', Otp = []\<rparr>) [] =
     (\<lparr>Type = ResponseTypeError, Status = 400,
       Result = ResultError \<lparr>Message = ''please use a valid email address.'',
                            Kind = ''invalid-auth-data'',
                            Value = [(''email'', [''invalid''])]\<rparr>,
       Change = None\<rparr>, [])"
proof -
  have h: "\<not> isEmailish (Username \<lparr>Username = ''noat.example'', Password = ''x'', Otp = []\<rparr>)"
    by (simp add: not_isEmailish_without_at)
  from h loginUser_rejects_non_email [OF h, of example_daemon "[]"] show ?thesis
    by simp
qed

text \<open>Claim C8. For every Change whose status is Ready, POST on \<^verbatim>\<open>/v2/changes/{id}\<close> with
  body \<^verbatim>\<open>{"action":"abort"}\<close> is rejected with a 400 error ("nothing pending") and the
  Change is not aborted: the calls made are the lock, the lookup of the change, the
  reading of its status and the unlock. The abort flag is set only on a non-Ready Change:
  whatever the request, when the handler has called the abort of a change, it is the
  change of the request and its status was not Ready.\<close>

theorem abortChange_ready_rejected:
  "(stateChange d (w @ [StateLock]) chID \<and> ad_Action reqData = ''abort''
      \<and> changeStatusReady d (w @ [StateLock, StateChange chID]) chID \<longrightarrow>
      abortChange d chID (Inr reqData) w =
        (BadRequest (''cannot abort change '' @ chID @ '' with nothing pending''),
         w @ [StateLock, StateChange chID, ChangeStatusReady chID, StateUnlock])
      \<and> Status (fst (abortChange d chID (Inr reqData) w)) = 400)
   \<and> (ChangeAbort c \<in> set (snd (abortChange d chID reqBody w)) \<and> ChangeAbort c \<notin> set w \<longrightarrow>
        c = chID \<and> \<not> changeStatusReady d (w @ [StateLock, StateChange chID]) chID)"
  by (auto simp: abortChange_def BadRequest_def ErrorResponse_def Let_def split: sum.splits if_splits)

theorem abortChange_ready_rejected_witness:
  "stateChange example_daemon [StateLock] ''1''
   \<and> changeStatusReady example_daemon [StateLock, StateChange ''1''] ''1''
   \<and> abortChange example_daemon ''1'' (Inr \<lparr>ad_Action = ''abort''\<rparr>) []
       = (BadRequest ''cannot abort change 1 with nothing pending'',
          [StateLock, StateChange ''1'', ChangeStatusReady ''1'', StateUnlock])
   \<and> ChangeAbort ''1''
       \<in> set (snd (abortChange (example_daemon\<lparr>changeStatusReady := (\<lambda>w chID. False)\<rparr>) ''1''
                      (Inr \<lparr>ad_Action = ''abort''\<rparr>) []))
   \<and> \<not> changeStatusReady (example_daemon\<lparr>changeStatusReady := (\<lambda>w chID. False)\<rparr>)
         [StateLock, StateChange ''1''] ''1''"
proof -
  let ?d = "example_daemon\<lparr>changeStatusReady := (\<lambda>w chID. False)\<rparr>"
  have h1: "stateChange example_daemon ([] @ [StateLock]) ''1''
      \<and> ad_Action \<lparr>ad_Action = ''abort''\<rparr> = ''abort''
      \<and> changeStatusReady example_daemon ([] @ [StateLock, StateChange ''1'']) ''1''"
    by (simp add: example_daemon_def)
  have h2: "ChangeAbort ''1'' \<in> set (snd (abortChange ?d ''1'' (Inr \<lparr>ad_Action = ''abort''\<rparr>) []))
      \<and> ChangeAbort ''1'' \<notin> set []"
    by (simp add: abortChange_def example_daemon_def Let_def)
  from h1 abortChange_ready_rejected [where d=example_daemon and w="[]" and chID="''1''"
      and reqData="\<lparr>ad_Action = ''abort''\<rparr>"]
  have r1: "abortChange example_daemon ''1'' (Inr \<lparr>ad_Action = ''abort''\<rparr>) []
       = (BadRequest ''cannot abort change 1 with nothing pending'',
          [StateLock, StateChange ''1'', ChangeStatusReady ''1'', StateUnlock])"
    by simp
  from h2 abortChange_ready_rejected [where d="?d" and w="[]" and chID="''1''" and c="''1''"
      and reqBody="Inr \<lparr>ad_Action = ''abort''\<rparr>"]
  have r2: "\<not> changeStatusReady ?d ([] @ [StateLock, StateChange ''1'']) ''1''"
    by blast
  from h1 h2 r1 r2 show ?thesis by simp
qed

lemma Split_nonempty: "Split s sep \<noteq> []"
  using Split_length [of s sep] by (cases "Split s sep") simp_all

lemma getSnapConf_unfold:
  "getSnapConf d snapName query w =
       (case getConfValues d snapName (Split (query_Get query ''keys'') CHR '','') Map.empty
                (w @ [StateLock, ConfigstateNewTransaction, StateUnlock]) of
           (Inl err, w1) \<Rightarrow> (BadRequest err, w1)
         | (Inr currentConfValues, w1) \<Rightarrow> (SyncResponse currentConfValues, w1))"
  by (simp add: getSnapConf_def Let_def Split_nonempty)

text \<open>Claim C9. In GET on \<^verbatim>\<open>/v2/snaps/{name}/conf\<close>, the 400 "cannot obtain
  configuration: no keys supplied" branch is unreachable: splitting the keys query
  parameter on a comma always yields at least one element, so the handler always goes on
  to the lookups, and for every request with an absent or empty keys parameter it instead
  attempts a configuration lookup of the empty-string key, whose outcome is the
  response.\<close>

theorem getSnapConf_no_keys_unreachable:
  "length (Split (query_Get query ''keys'') CHR '','') \<noteq> 0
   \<and> getSnapConf d snapName query w =
       (case getConfValues d snapName (Split (query_Get query ''keys'') CHR '','') Map.empty
                (w @ [StateLock, ConfigstateNewTransaction, StateUnlock]) of
           (Inl err, w1) \<Rightarrow> (BadRequest err, w1)
         | (Inr currentConfValues, w1) \<Rightarrow> (SyncResponse currentConfValues, w1))
   \<and> (query ''keys'' = [] \<or> hd (query ''keys'') = [] \<longrightarrow>
        getSnapConf d snapName query w =
          (case transactionGet d (w @ [StateLock, ConfigstateNewTransaction, StateUnlock]) snapName [] of
             Inl err \<Rightarrow> BadRequest err
           | Inr v \<Rightarrow> SyncResponse [[] \<mapsto> v],
           w @ [StateLock, ConfigstateNewTransaction, StateUnlock, TransactionGet snapName []]))"
proof (intro conjI impI)
  show "length (Split (query_Get query ''keys'') CHR '','') \<noteq> 0"
    by (simp add: Split_length)
  show "getSnapConf d snapName query w =
       (case getConfValues d snapName (Split (query_Get query ''keys'') CHR '','') Map.empty
                (w @ [StateLock, ConfigstateNewTransaction, StateUnlock]) of
           (Inl err, w1) \<Rightarrow> (BadRequest err, w1)
         | (Inr currentConfValues, w1) \<Rightarrow> (SyncResponse currentConfValues, w1))"
    by (rule getSnapConf_unfold)
next
  assume "query ''keys'' = [] \<or> hd (query ''keys'') = []"
  then have "query_Get query ''keys'' = []"
    by (auto simp: query_Get_def split: list.splits)
  then show "getSnapConf d snapName query w =
          (case transactionGet d (w @ [StateLock, ConfigstateNewTransaction, StateUnlock]) snapName [] of
             Inl err \<Rightarrow> BadRequest err
           | Inr v \<Rightarrow> SyncResponse [[] \<mapsto> v],
           w @ [StateLock, ConfigstateNewTransaction, StateUnlock, TransactionGet snapName []])"
    by (simp add: getSnapConf_unfold Split_empty split: sum.splits)
qed

theorem getSnapConf_no_keys_unreachable_witness:
  "(\<lambda>k. []) ''keys'' = ([] :: string list)
   \<and> getSnapConf example_daemon ''foo'' (\<lambda>k. []) []
       = (SyncResponse [[] \<mapsto> []],
          [StateLock, ConfigstateNewTransaction, StateUnlock, TransactionGet ''foo'' []])
   \<and> getSnapConf example_daemon ''foo'' (\<lambda>k. [[]]) []
       = (SyncResponse [[] \<mapsto> []],
          [StateLock, ConfigstateNewTransaction, StateUnlock, TransactionGet ''foo'' []])"
proof -
  have h1: "(\<lambda>k. []) ''keys'' = ([] :: string list) \<or> hd ((\<lambda>k. []) ''keys'') = ([] :: string)"
    by simp
  have h2: "(\<lambda>k. [[]]) ''keys'' = ([] :: string list) \<or> hd ((\<lambda>k. [[]]) ''keys'') = ([] :: string)"
    by simp
  from h1 getSnapConf_no_keys_unreachable [where query="\<lambda>k. []" and d=example_daemon
      and snapName="''foo''" and w="[]"]
  have "getSnapConf example_daemon ''foo'' (\<lambda>k. []) [] =
          (case transactionGet example_daemon ([] @ [StateLock, ConfigstateNewTransaction, StateUnlock]) ''foo'' [] of
             Inl err \<Rightarrow> BadRequest err
           | Inr v \<Rightarrow> SyncResponse [[] \<mapsto> v],
           [] @ [StateLock, ConfigstateNewTransaction, StateUnlock, TransactionGet ''foo'' []])"
    by blast
  then have r1: "getSnapConf example_daemon ''foo'' (\<lambda>k. []) []
       = (SyncResponse [[] \<mapsto> []],
          [StateLock, ConfigstateNewTransaction, StateUnlock, TransactionGet ''foo'' []])"
    by (simp add: example_daemon_def)
  from h2 getSnapConf_no_keys_unreachable [where query="\<lambda>k. [[]]" and d=example_daemon
      and snapName="''foo''" and w="[]"]
  have "getSnapConf example_daemon ''foo'' (\<lambda>k. [[]]) [] =
          (case transactionGet example_daemon ([] @ [StateLock, ConfigstateNewTransaction, StateUnlock]) ''foo'' [] of
             Inl err \<Rightarrow> BadRequest err
           | Inr v \<Rightarrow> SyncResponse [[] \<mapsto> v],
           [] @ [StateLock, ConfigstateNewTransaction, StateUnlock, TransactionGet ''foo'' []])"
    by blast
  then have r2: "getSnapConf example_daemon ''foo'' (\<lambda>k. [[]]) []
       = (SyncResponse [[] \<mapsto> []],
          [StateLock, ConfigstateNewTransaction, StateUnlock, TransactionGet ''foo'' []])"
    by (simp add: example_daemon_def)
  from r1 r2 show ?thesis by simp
qed

text \<open>Claim C10, as amended. For every POST on \<^verbatim>\<open>/v2/interfaces\<close> whose decoded action
  is non-empty, which supplies more than one plug or more than one slot, and whose action
  is connect or disconnect or is sent to a daemon with internal interface actions enabled,
  the daemon responds with a 501 not-implemented error ("many-to-many operations are not
  implemented") and calls nothing. The check comes after the check that the action is
  specified and the check that internal interface actions are enabled, and before the
  unsupported-action and at-least-one-plug-and-slot checks, so with internal interface
  actions enabled it fires even for actions other than connect and disconnect.\<close>

theorem changeInterfaces_many_to_many:
  assumes "ia_Action a \<noteq> []"
    and "length (Plugs a) > 1 \<or> length (Slots a) > 1"
    and "enableInternalInterfaceActions d \<or> ia_Action a = ''connect'' \<or> ia_Action a = ''disconnect''"
  shows "changeInterfaces d (Inr a) w
           = (NotImplemented ''many-to-many operations are not implemented'', w)
         \<and> Status (fst (changeInterfaces d (Inr a) w)) = 501
         \<and> Type (fst (changeInterfaces d (Inr a) w)) = ResponseTypeError"
  using assms by (auto simp: changeInterfaces_def NotImplemented_def ErrorResponse_def)

theorem changeInterfaces_many_to_many_witness:
  "changeInterfaces example_daemon
      (Inr \<lparr>ia_Action = ''connect'', Plugs = [example_plug, example_plug], Slots = [example_slot]\<rparr>) []
     = (NotImplemented ''many-to-many operations are not implemented'', [])
   \<and> enableInternalInterfaceActions (example_daemon\<lparr>enableInternalInterfaceActions := True\<rparr>)
   \<and> changeInterfaces (example_daemon\<lparr>enableInternalInterfaceActions := True\<rparr>)
      (Inr \<lparr>ia_Action = ''add-plug'', Plugs = [example_plug], Slots = [example_slot, example_slot]\<rparr>) []
     = (NotImplemented ''many-to-many operations are not implemented'', [])"
proof -
  let ?a = "\<lparr>ia_Action = ''connect'', Plugs = [example_plug, example_plug], Slots = [example_slot]\<rparr>"
  let ?b = "\<lparr>ia_Action = ''add-plug'', Plugs = [example_plug], Slots = [example_slot, example_slot]\<rparr>"
  let ?d = "example_daemon\<lparr>enableInternalInterfaceActions := True\<rparr>"
  have a1: "ia_Action ?a \<noteq> []" and a2: "length (Plugs ?a) > 1 \<or> length (Slots ?a) > 1"
    and a3: "enableInternalInterfaceActions example_daemon \<or> ia_Action ?a = ''connect''
        \<or> ia_Action ?a = ''disconnect''"
    by simp_all
  have b1: "ia_Action ?b \<noteq> []" and b2: "length (Plugs ?b) > 1 \<or> length (Slots ?b) > 1"
    and b3: "enableInternalInterfaceActions ?d \<or> ia_Action ?b = ''connect''
        \<or> ia_Action ?b = ''disconnect''"
    by simp_all
  from changeInterfaces_many_to_many [OF a1 a2 a3, of "[]"]
    changeInterfaces_many_to_many [OF b1 b2 b3, of "[]"]
  show ?thesis by simp
qed

text \<open>Claim C10 as stated fails. With internal interface actions disabled, a request with
  the action add-plug and two plugs is answered with the 400 error that internal interface
  actions are disabled, not with 501.\<close>

theorem changeInterfaces_many_to_many_counterexample:
  "changeInterfaces example_daemon
      (Inr \<lparr>ia_Action = ''add-plug'', Plugs = [example_plug, example_plug], Slots = [example_slot]\<rparr>) []
     = (BadRequest ''internal interface actions are disabled'', [])
   \<and> Status (BadRequest ''internal interface actions are disabled'' :: unit resp) = 400"
  by (simp add: changeInterfaces_def example_daemon_def BadRequest_def ErrorResponse_def)

end
